theory Spec2Isabelle
  imports Main "HOL-Library.Word" "HOL-Library.Sublist"
begin

section \<open>The evmone host layer of erigon (core/evmone-go/host\_impl.go)\<close>

text \<open>
  The host sits between the bytecode interpreter and the account/storage backend
  (\<open>evmtypes.IntraBlockState\<close>, an interface). The methods of \<open>HostImpl\<close> are embedded
  here as state-passing functions over a model of the backend: every method takes the
  backend state and returns its result together with the new state.

  Fixed-width values are words: an address is 160 bits, a hash and a \<open>uint256.Int\<close> are 256
  bits (\<open>SetBytes32\<close> and \<open>Bytes32\<close> convert between the two big-endian and are the identity
  on the word), a nonce is a \<open>uint64\<close>. Gas is a 64-bit word as well: the conversions
  \<open>int64(gas)\<close> and \<open>uint64(gas)\<close> of the source keep the bits, and a signed comparison of the
  source compares the \<open>sint\<close> of both sides.
\<close>

type_synonym address = "160 word"
type_synonym hash = "256 word"
type_synonym uint256 = "256 word"
type_synonym bytes = "8 word list"
type_synonym uint64 = "64 word"
type_synonym int64 = "64 word"

subsection \<open>Enumerations and errors\<close>

text \<open>The call kinds the source names (\<open>Call\<close>, \<open>DelegateCall\<close>, \<open>CallCode\<close>, \<open>Create\<close>,
  \<open>Create2\<close>, \<open>EofCreate\<close>).\<close>

datatype CallKind = Call | DelegateCall | CallCode | Create | Create2 | EofCreate

datatype StorageStatus =
    StorageAssigned
  | StorageAdded
  | StorageDeleted
  | StorageModified
  | StorageDeletedAdded
  | StorageModifiedDeleted
  | StorageDeletedRestored
  | StorageAddedDeleted
  | StorageModifiedRestored

text \<open>The revisions \<open>NewEvmOneHost\<close> selects from, in protocol order; \<open>h.rev >= Cancun\<close> of the
  source compares their ranks.\<close>

datatype Revision =
    Frontier | Homestead | TangerineWhistle | SpuriousDragon | Byzantium
  | Constantinople | Petersburg | Istanbul | Berlin | London | Paris
  | Shanghai | Cancun | Prague

fun rev_rank :: "Revision \<Rightarrow> nat" where
  "rev_rank Frontier = 0"
| "rev_rank Homestead = 1"
| "rev_rank TangerineWhistle = 2"
| "rev_rank SpuriousDragon = 3"
| "rev_rank Byzantium = 4"
| "rev_rank Constantinople = 5"
| "rev_rank Petersburg = 6"
| "rev_rank Istanbul = 7"
| "rev_rank Berlin = 8"
| "rev_rank London = 9"
| "rev_rank Paris = 10"
| "rev_rank Shanghai = 11"
| "rev_rank Cancun = 12"
| "rev_rank Prague = 13"

text \<open>The errors of package \<open>vm\<close> the host returns or compares with; a Go \<open>error\<close> is an
  \<open>vm_error option\<close>, \<open>nil\<close> being \<open>None\<close>. \<open>ErrFault\<close> stands for any other fault the
  interpreter or a precompile reports.\<close>

datatype vm_error =
    ErrInsufficientBalance
  | ErrNonceUintOverflow
  | ErrContractAddressCollision
  | ErrMaxCodeSizeExceeded
  | ErrInvalidCode
  | ErrCodeStoreOutOfGas
  | ErrExecutionReverted
  | ErrOutOfGas
  | ErrFault string

subsection \<open>The state backend\<close>

record Log =
  Address :: address
  Topics :: "hash list"
  Data :: bytes
  BlockNumber :: uint64

record account =
  Nonce :: uint64
  Balance :: uint256
  Code :: bytes
  selfdestructed :: bool
  newlyCreated :: bool

text \<open>The backend operations that change something, as recorded in \<open>trace\<close>.\<close>

datatype ibs_op =
    OpSetNonce address uint64
  | OpAddBalance address uint256
  | OpSubBalance address uint256
  | OpSetCode address bytes
  | OpSetState address hash uint256
  | OpCreateAccount address bool
  | OpSelfdestruct address
  | OpAddAddressToAccessList address
  | OpAddLog Log
  | OpSnapshot
  | OpRevertToSnapshot

text \<open>
  Modelled from the spec: the implementation behind the interface
  \<open>evmtypes.IntraBlockState\<close> is not among the sources. The model follows sections 4.2, 4.3,
  4.6 and 6 of the specification: accounts with nonce, balance and code, current and
  committed (original) storage, the log, the access list, and checkpoints. \<open>trace\<close> lists
  the changing operations in the order the backend received them; it is what ordering
  statements (what happened before a snapshot) are made about.
\<close>

record ibs =
  accounts :: "address \<Rightarrow> account option"
  storage :: "address \<Rightarrow> hash \<Rightarrow> uint256"
  committed :: "address \<Rightarrow> hash \<Rightarrow> uint256"
  logs :: "Log list"
  accessList :: "address set"
  trace :: "ibs_op list"

definition emptyAccount :: account where
  "emptyAccount =
     \<lparr>Nonce = 0, Balance = 0, Code = [], selfdestructed = False, newlyCreated = False\<rparr>"

text \<open>Modelled from the spec: the account an operation writes to, a fresh empty one when
  the address has none.\<close>

definition getOrNew :: "address \<Rightarrow> ibs \<Rightarrow> account" where
  "getOrNew addr s = (case accounts s addr of None \<Rightarrow> emptyAccount | Some a \<Rightarrow> a)"

text \<open>Modelled from the spec: the queries of section 6; an absent account reads as nonce 0,
  balance 0, no code and the zero code hash.\<close>

definition ibs_Exist :: "address \<Rightarrow> ibs \<Rightarrow> bool" where
  "ibs_Exist addr s = (accounts s addr \<noteq> None)"

definition ibs_GetNonce :: "address \<Rightarrow> ibs \<Rightarrow> uint64" where
  "ibs_GetNonce addr s = (case accounts s addr of None \<Rightarrow> 0 | Some a \<Rightarrow> Nonce a)"

definition ibs_GetBalance :: "address \<Rightarrow> ibs \<Rightarrow> uint256" where
  "ibs_GetBalance addr s = (case accounts s addr of None \<Rightarrow> 0 | Some a \<Rightarrow> Balance a)"

definition ibs_GetCode :: "address \<Rightarrow> ibs \<Rightarrow> bytes" where
  "ibs_GetCode addr s = (case accounts s addr of None \<Rightarrow> [] | Some a \<Rightarrow> Code a)"

text \<open>Modelled from the spec: the code hash is the Keccak-256 hash of the account's code;
  the hash function (package \<open>crypto\<close>, not among the sources) is the parameter \<open>kec\<close>.\<close>

definition ibs_GetCodeHash :: "(bytes \<Rightarrow> hash) \<Rightarrow> address \<Rightarrow> ibs \<Rightarrow> hash" where
  "ibs_GetCodeHash kec addr s = (case accounts s addr of None \<Rightarrow> 0 | Some a \<Rightarrow> kec (Code a))"

definition ibs_GetState :: "address \<Rightarrow> hash \<Rightarrow> ibs \<Rightarrow> uint256" where
  "ibs_GetState addr key s = storage s addr key"

definition ibs_GetCommittedState :: "address \<Rightarrow> hash \<Rightarrow> ibs \<Rightarrow> uint256" where
  "ibs_GetCommittedState addr key s = committed s addr key"

definition ibs_HasSelfdestructed :: "address \<Rightarrow> ibs \<Rightarrow> bool" where
  "ibs_HasSelfdestructed addr s =
     (case accounts s addr of None \<Rightarrow> False | Some a \<Rightarrow> selfdestructed a)"

text \<open>Modelled from the spec: the updates of section 6.\<close>

definition ibs_SetState :: "address \<Rightarrow> hash \<Rightarrow> uint256 \<Rightarrow> ibs \<Rightarrow> ibs" where
  "ibs_SetState addr key v s =
     s\<lparr>storage := (storage s)(addr := (storage s addr)(key := v)),
       trace := trace s @ [OpSetState addr key v]\<rparr>"

definition ibs_SetNonce :: "address \<Rightarrow> uint64 \<Rightarrow> ibs \<Rightarrow> ibs" where
  "ibs_SetNonce addr n s =
     s\<lparr>accounts := (accounts s)(addr \<mapsto> (getOrNew addr s)\<lparr>Nonce := n\<rparr>),
       trace := trace s @ [OpSetNonce addr n]\<rparr>"

definition ibs_AddBalance :: "address \<Rightarrow> uint256 \<Rightarrow> ibs \<Rightarrow> ibs" where
  "ibs_AddBalance addr amount s =
     s\<lparr>accounts := (accounts s)(addr \<mapsto>
          (getOrNew addr s)\<lparr>Balance := Balance (getOrNew addr s) + amount\<rparr>),
       trace := trace s @ [OpAddBalance addr amount]\<rparr>"

definition ibs_SubBalance :: "address \<Rightarrow> uint256 \<Rightarrow> ibs \<Rightarrow> ibs" where
  "ibs_SubBalance addr amount s =
     s\<lparr>accounts := (accounts s)(addr \<mapsto>
          (getOrNew addr s)\<lparr>Balance := Balance (getOrNew addr s) - amount\<rparr>),
       trace := trace s @ [OpSubBalance addr amount]\<rparr>"

definition ibs_SetCode :: "address \<Rightarrow> bytes \<Rightarrow> ibs \<Rightarrow> ibs" where
  "ibs_SetCode addr code s =
     s\<lparr>accounts := (accounts s)(addr \<mapsto> (getOrNew addr s)\<lparr>Code := code\<rparr>),
       trace := trace s @ [OpSetCode addr code]\<rparr>"

text \<open>Modelled from the spec: materialising an account (4.5) gives a fresh account, created
  within the current transaction, that keeps the balance the address already held.\<close>

definition ibs_CreateAccount :: "address \<Rightarrow> bool \<Rightarrow> ibs \<Rightarrow> ibs" where
  "ibs_CreateAccount addr contractCreation s =
     s\<lparr>accounts := (accounts s)(addr \<mapsto>
          emptyAccount\<lparr>Balance := ibs_GetBalance addr s, newlyCreated := True\<rparr>),
       trace := trace s @ [OpCreateAccount addr contractCreation]\<rparr>"

text \<open>Modelled from the spec (4.2): the first touch adds the address and reports that it
  was added; later touches change nothing.\<close>

definition ibs_AddAddressToAccessList :: "address \<Rightarrow> ibs \<Rightarrow> bool \<times> ibs" where
  "ibs_AddAddressToAccessList addr s =
     (addr \<notin> accessList s,
      s\<lparr>accessList := insert addr (accessList s),
        trace := trace s @ [OpAddAddressToAccessList addr]\<rparr>)"

definition ibs_AddLog :: "Log \<Rightarrow> ibs \<Rightarrow> ibs" where
  "ibs_AddLog l s = s\<lparr>logs := logs s @ [l], trace := trace s @ [OpAddLog l]\<rparr>"

text \<open>Modelled from the spec (4.6): the legacy operation marks an existing account
  destructed, its balance leaving the account, and reports whether an account was marked;
  the EIP-6780 operation does so only for an account created within the current
  transaction.\<close>

definition ibs_Selfdestruct :: "address \<Rightarrow> ibs \<Rightarrow> bool \<times> ibs" where
  "ibs_Selfdestruct addr s =
     (case accounts s addr of
        None \<Rightarrow> (False, s)
      | Some a \<Rightarrow>
          (True,
           s\<lparr>accounts := (accounts s)(addr \<mapsto> a\<lparr>selfdestructed := True, Balance := 0\<rparr>),
             trace := trace s @ [OpSelfdestruct addr]\<rparr>))"

definition ibs_Selfdestruct6780 :: "address \<Rightarrow> ibs \<Rightarrow> ibs" where
  "ibs_Selfdestruct6780 addr s =
     (case accounts s addr of
        None \<Rightarrow> s
      | Some a \<Rightarrow> if newlyCreated a then snd (ibs_Selfdestruct addr s) else s)"

text \<open>Modelled from the spec (4.3): the handle of a snapshot identifies the checkpoint, here
  by holding the state at the time it was taken. Reverting restores every state mutation
  made since (accounts with their balances, nonces and code, storage, logs); access-list
  entries are not restored.\<close>

definition ibs_Snapshot :: "ibs \<Rightarrow> ibs \<times> ibs" where
  "ibs_Snapshot s = (s, s\<lparr>trace := trace s @ [OpSnapshot]\<rparr>)"

definition ibs_RevertToSnapshot :: "ibs \<Rightarrow> ibs \<Rightarrow> ibs" where
  "ibs_RevertToSnapshot snapshot s =
     s\<lparr>accounts := accounts snapshot,
       storage := storage snapshot,
       committed := committed snapshot,
       logs := logs snapshot,
       trace := trace s @ [OpRevertToSnapshot]\<rparr>"

subsection \<open>What the host is given\<close>

text \<open>The fields of \<open>chain.Rules\<close>, \<open>vm.Config\<close>, \<open>evmtypes.TxContext\<close> and
  \<open>evmtypes.BlockContext\<close> that the methods below read. \<open>CanTransfer\<close> and \<open>Transfer\<close> are
  function-valued fields of the block context in the source, and are so here.\<close>

record Rules =
  IsHomestead :: bool
  IsSpuriousDragon :: bool
  IsBerlin :: bool
  IsLondon :: bool
  IsAura :: bool

record Config =
  RestoreState :: bool

record TxContext =
  Origin :: address

record BlockContext =
  CanTransfer :: "ibs \<Rightarrow> address \<Rightarrow> uint256 \<Rightarrow> bool"
  Transfer :: "ibs \<Rightarrow> address \<Rightarrow> address \<Rightarrow> uint256 \<Rightarrow> bool \<Rightarrow> ibs"
  ctxBlockNumber :: uint64

text \<open>A precompiled contract: its gas price and its run on an input.\<close>

record PrecompiledContract =
  RequiredGas :: "bytes \<Rightarrow> uint64"
  Run :: "bytes \<Rightarrow> bytes \<times> vm_error option"

record EVM =
  Context :: BlockContext
  ChainRules :: Rules
  Precompile :: "address \<Rightarrow> PrecompiledContract option"

text \<open>The struct \<open>HostImpl\<close>; \<open>rev_h\<close> is its field \<open>rev\<close>. The fields \<open>ibs\<close> (threaded
  through the functions as the state), \<open>chainID\<close> and \<open>handle\<close> (not read by the methods
  below) are left out.\<close>

record HostImpl =
  evm :: EVM
  txCtx :: TxContext
  blockCtx :: BlockContext
  config :: Config
  rev_h :: Revision
  bailout :: bool

text \<open>The result of the interpreter, \<open>Result\<close>, and the five named results of \<open>handleCalls\<close> and
  \<open>Call\<close> (\<open>output_r\<close> is the result \<open>output\<close>; a nil slice is the empty list, the zero
  address is \<open>0\<close>).\<close>

record Result =
  Output :: bytes
  GasLeft :: int64
  GasRefund :: int64

record call_result =
  output_r :: bytes
  gasLeft :: int64
  gasRefund :: int64
  createAddr :: address
  err :: "vm_error option"

text \<open>
  Functions and constants of other packages and files that the host calls and that are not
  among the sources, taken as parameters: the interpreter entry \<open>h.Execute\<close> (which may
  re-enter the host and so changes the state), \<open>vm.RunPrecompiledContract\<close>, the functions
  of package \<open>crypto\<close>, \<open>Config.HasEip3860\<close>, and the constants \<open>params.MaxCodeSize\<close> and
  \<open>params.CreateDataGas\<close>.
\<close>

record externals =
  Execute :: "CallKind \<Rightarrow> bool \<Rightarrow> int \<Rightarrow> int64 \<Rightarrow> address \<Rightarrow> address \<Rightarrow> bytes \<Rightarrow> hash \<Rightarrow> bytes
                \<Rightarrow> ibs \<Rightarrow> (Result \<times> vm_error option) \<times> ibs"
  RunPrecompiledContract :: "PrecompiledContract \<Rightarrow> bytes \<Rightarrow> uint64 \<Rightarrow> bytes \<times> uint64 \<times> vm_error option"
  Keccak256Hash :: "bytes \<Rightarrow> hash"
  CreateAddress :: "address \<Rightarrow> uint64 \<Rightarrow> address"
  CreateAddress2 :: "address \<Rightarrow> hash \<Rightarrow> hash \<Rightarrow> address"
  HasEip3860 :: "Config \<Rightarrow> Rules \<Rightarrow> bool"
  MaxCodeSize :: nat
  CreateDataGas :: uint64

text \<open>\<open>var emptyCodeHash = crypto.Keccak256Hash(nil)\<close>\<close>

definition emptyCodeHash :: "externals \<Rightarrow> hash" where
  "emptyCodeHash x = Keccak256Hash x []"

subsection \<open>SetStorage, Selfdestruct, EmitLog\<close>

definition HostImpl_SetStorage :: "HostImpl \<Rightarrow> address \<Rightarrow> hash \<Rightarrow> hash \<Rightarrow> ibs \<Rightarrow> StorageStatus \<times> ibs" where
  "HostImpl_SetStorage h addr key val s =
     (let uvalue = val;
          current = ibs_GetState addr key s;
          original = ibs_GetCommittedState addr key s;
          dirty = (original \<noteq> current);
          restored = (original = uvalue);
          currentIsZero = (current = 0);
          valueIsZero = (uvalue = 0);
          status =
            (if \<not> dirty \<and> \<not> restored then
               (if currentIsZero then StorageAdded
                else if valueIsZero then StorageDeleted
                else StorageModified)
             else if dirty \<and> \<not> restored then
               (if currentIsZero \<and> \<not> valueIsZero then StorageDeletedAdded
                else if \<not> currentIsZero \<and> valueIsZero then StorageModifiedDeleted
                else StorageAssigned)
             else if dirty \<and> restored then
               (if currentIsZero then StorageDeletedRestored
                else if valueIsZero then StorageAddedDeleted
                else StorageModifiedRestored)
             else StorageAssigned)
      in (status, ibs_SetState addr key uvalue s))"

definition HostImpl_Selfdestruct :: "HostImpl \<Rightarrow> address \<Rightarrow> address \<Rightarrow> ibs \<Rightarrow> bool \<times> ibs" where
  "HostImpl_Selfdestruct h addr beneficiary s =
     (if rev_rank Cancun \<le> rev_rank (rev_h h) then
        (let balance = ibs_GetBalance addr s;
             s1 = ibs_SubBalance addr balance s;
             s2 = ibs_AddBalance beneficiary balance s1;
             s3 = ibs_Selfdestruct6780 addr s2;
             r = ibs_HasSelfdestructed addr s3
         in (r, s3))
      else
        (let balance = ibs_GetBalance addr s;
             s1 = ibs_AddBalance beneficiary balance s
         in ibs_Selfdestruct addr s1))"

definition HostImpl_EmitLog :: "HostImpl \<Rightarrow> address \<Rightarrow> hash list \<Rightarrow> bytes \<Rightarrow> ibs \<Rightarrow> ibs" where
  "HostImpl_EmitLog h addr topics data s =
     ibs_AddLog \<lparr>Address = Origin (txCtx h), Topics = topics, Data = data,
                 BlockNumber = ctxBlockNumber (blockCtx h)\<rparr> s"

subsection \<open>handleCalls and Call\<close>

text \<open>
  \<open>handleCalls\<close>, statement by statement. Each early \<open>return\<close> of the source is a branch
  that yields the results and the state reached so far. The assignment \<open>gas = 0\<close> in the
  final block writes the parameter \<open>gas\<close>, which is not one of the results and is not read
  again before the function returns; it is the binding \<open>gas1\<close> below.
\<close>

definition HostImpl_handleCalls ::
  "externals \<Rightarrow> HostImpl \<Rightarrow> CallKind \<Rightarrow> address \<Rightarrow> address \<Rightarrow> uint256 \<Rightarrow> bytes \<Rightarrow> uint64 \<Rightarrow> int
     \<Rightarrow> bool \<Rightarrow> hash \<Rightarrow> address \<Rightarrow> ibs \<Rightarrow> call_result \<times> ibs" where
  "HostImpl_handleCalls x h kind recipient sender val input gas depth static salt codeAddress s =
     (let gasLeft0 = gas in
      if (kind = Call \<or> kind = CallCode) \<and> val \<noteq> 0
           \<and> \<not> CanTransfer (Context (evm h)) s sender val \<and> \<not> bailout h
      then (\<lparr>output_r = [], gasLeft = gasLeft0, gasRefund = 0, createAddr = 0,
              err = Some ErrInsufficientBalance\<rparr>, s)
      else
        let p = Precompile (evm h) codeAddress;
            isPrecompile = (p \<noteq> None);
            code = (if \<not> isPrecompile then ibs_GetCode codeAddress s else []);
            (snapshot, s1) = ibs_Snapshot s
        in
        if kind = Call \<and> \<not> ibs_Exist recipient s1
             \<and> \<not> isPrecompile \<and> IsSpuriousDragon (ChainRules (evm h)) \<and> val = 0
        then (\<lparr>output_r = [], gasLeft = gasLeft0, gasRefund = 0, createAddr = 0, err = None\<rparr>, s1)
        else
          let s2 = (if kind = Call then
                      Transfer (Context (evm h))
                        (if \<not> ibs_Exist recipient s1 then ibs_CreateAccount recipient False s1 else s1)
                        sender recipient val (bailout h)
                    else s1);
              (res, s3) =
                (case p of
                   Some pc \<Rightarrow>
                     (let (out, gLeft, e) = RunPrecompiledContract x pc input gas
                      in (\<lparr>output_r = out, gasLeft = gLeft, gasRefund = 0, createAddr = 0, err = e\<rparr>, s2))
                 | None \<Rightarrow>
                     if length code = 0
                     then (\<lparr>output_r = [], gasLeft = gasLeft0, gasRefund = 0, createAddr = 0,
                             err = None\<rparr>, s2)
                     else
                       (let ((evmone_result, e), s') =
                              Execute x Call static depth gas recipient sender input val code s2
                        in (\<lparr>output_r = Output evmone_result, gasLeft = GasLeft evmone_result,
                              gasRefund = GasRefund evmone_result, createAddr = 0, err = e\<rparr>, s')));
              revert = (err res \<noteq> None \<or> RestoreState (config h));
              s4 = (if revert then ibs_RevertToSnapshot snapshot s3 else s3);
              gas1 = (if revert \<and> err res \<noteq> Some ErrExecutionReverted then 0 else gas)
          in (res, s4))"

text \<open>
  \<open>Call\<close>. The message-call kinds go to \<open>handleCalls\<close>; the rest of the body is the creation
  path. The named result \<open>createAddr\<close> is never assigned in the body, so the final
  \<open>return\<close> yields its zero value.
\<close>

definition HostImpl_Call ::
  "externals \<Rightarrow> HostImpl \<Rightarrow> CallKind \<Rightarrow> address \<Rightarrow> address \<Rightarrow> hash \<Rightarrow> bytes \<Rightarrow> int64 \<Rightarrow> int
     \<Rightarrow> bool \<Rightarrow> hash \<Rightarrow> address \<Rightarrow> ibs \<Rightarrow> call_result \<times> ibs" where
  "HostImpl_Call x h kind recipient0 sender val input0 gas depth static salt codeAddress s =
     (let uvalue = val in
      if kind = Call \<or> kind = DelegateCall \<or> kind = CallCode
      then HostImpl_handleCalls x h kind recipient0 sender uvalue input0 gas depth static salt
             codeAddress s
      else
        let (recipient, code, input) =
              (if kind = Create
               then (CreateAddress x sender (ibs_GetNonce sender s), input0, [])
               else if kind = Create2
               then (CreateAddress2 x sender salt (Keccak256Hash x input0), input0, [])
               else (recipient0, [], input0))
        in
        if \<not> CanTransfer (Context (evm h)) s sender uvalue
        then (\<lparr>output_r = [], gasLeft = gas, gasRefund = 0, createAddr = 0,
                err = Some ErrInsufficientBalance\<rparr>, s)
        else
          let nonce = ibs_GetNonce sender s in
          if nonce + 1 < nonce
          then (\<lparr>output_r = [], gasLeft = gas, gasRefund = 0, createAddr = 0,
                  err = Some ErrNonceUintOverflow\<rparr>, s)
          else
            let s1 = ibs_SetNonce sender (nonce + 1) s;
                s2 = (if IsBerlin (ChainRules (evm h))
                      then snd (ibs_AddAddressToAccessList recipient s1) else s1);
                contractHash = ibs_GetCodeHash (Keccak256Hash x) recipient s2
            in
            if ibs_GetNonce recipient s2 \<noteq> 0
                 \<or> (contractHash \<noteq> 0 \<and> contractHash \<noteq> emptyCodeHash x)
            then (\<lparr>output_r = [], gasLeft = gas, gasRefund = 0, createAddr = 0,
                    err = Some ErrContractAddressCollision\<rparr>, s2)
            else
              let (snapshot, s3) = ibs_Snapshot s2;
                  s4 = ibs_CreateAccount recipient True s3;
                  s5 = (if IsSpuriousDragon (ChainRules (evm h))
                        then ibs_SetNonce recipient 1 s4 else s4);
                  s6 = Transfer (Context (evm h)) s5 sender recipient uvalue False;
                  ((evmone_result, e0), s7) =
                     Execute x kind static depth gas recipient sender input val code s6;
                  ret = Output evmone_result;
                  gasLeft1 = GasLeft evmone_result;
                  gasRefund1 = GasRefund evmone_result;
                  e1 = (if e0 = None \<and> IsSpuriousDragon (ChainRules (evm h))
                             \<and> MaxCodeSize x < length ret
                           \<and> (\<not> IsAura (ChainRules (evm h))
                                \<or> HasEip3860 x (config h) (ChainRules (evm h)))
                        then Some ErrMaxCodeSizeExceeded else e0);
                  e2 = (if e1 = None \<and> IsLondon (ChainRules (evm h))
                             \<and> 1 \<le> length ret \<and> ret ! 0 = 0xEF
                        then Some ErrInvalidCode else e1);
                  createDataGas = (of_nat (length ret) :: uint64) * CreateDataGas x;
                  (gasLeft2, s8, e3) =
                     (if e2 = None then
                        (if sint createDataGas \<le> sint gasLeft1
                         then (gasLeft1 - createDataGas, ibs_SetCode recipient ret s7, e2)
                         else if IsHomestead (ChainRules (evm h))
                         then (gasLeft1, s7, Some ErrCodeStoreOutOfGas)
                         else (gasLeft1, s7, e2))
                      else (gasLeft1, s7, e2));
                  s9 = (if e3 \<noteq> None
                             \<and> (IsHomestead (ChainRules (evm h)) \<or> e3 \<noteq> Some ErrCodeStoreOutOfGas)
                        then ibs_RevertToSnapshot snapshot s8 else s8)
              in (\<lparr>output_r = ret, gasLeft = gasLeft2, gasRefund = gasRefund1, createAddr = 0,
                    err = e3\<rparr>, s9))"

subsection \<open>Notions the statements are written with\<close>

text \<open>The table of section 4.1 of the specification, in its words; \<open>SetStorage\<close> is
  compared with it.\<close>

definition classify :: "uint256 \<Rightarrow> uint256 \<Rightarrow> uint256 \<Rightarrow> StorageStatus" where
  "classify original current newValue =
     (case (original \<noteq> current, original = newValue) of
        (False, False) \<Rightarrow>
          if current = 0 then StorageAdded
          else if newValue = 0 then StorageDeleted
          else StorageModified
      | (True, False) \<Rightarrow>
          if current = 0 \<and> newValue \<noteq> 0 then StorageDeletedAdded
          else if current \<noteq> 0 \<and> newValue = 0 then StorageModifiedDeleted
          else StorageAssigned
      | (True, True) \<Rightarrow>
          if current = 0 then StorageDeletedRestored
          else if newValue = 0 then StorageAddedDeleted
          else StorageModifiedRestored
      | (False, True) \<Rightarrow> StorageAssigned)"

text \<open>Whether the account at an address was created within the current transaction.\<close>

definition createdInTx :: "address \<Rightarrow> ibs \<Rightarrow> bool" where
  "createdInTx addr s = (case accounts s addr of None \<Rightarrow> False | Some a \<Rightarrow> newlyCreated a)"

text \<open>The balance precheck of \<open>handleCalls\<close> (its first statement) lets the call through.\<close>

definition call_precheck_passes :: "HostImpl \<Rightarrow> CallKind \<Rightarrow> address \<Rightarrow> uint256 \<Rightarrow> ibs \<Rightarrow> bool" where
  "call_precheck_passes h kind sender val s =
     (\<not> ((kind = Call \<or> kind = CallCode) \<and> val \<noteq> 0
          \<and> \<not> CanTransfer (Context (evm h)) s sender val \<and> \<not> bailout h))"

text \<open>
  The stations of the creation path of \<open>Call\<close>: the recipient, code and input it derives;
  the state it has prepared when it checks for a collision and takes the snapshot (sender
  nonce incremented, recipient added to the access list under Berlin); whether the three
  prechecks let the creation through; and the state it hands to the interpreter.
\<close>

definition create_recipient ::
  "externals \<Rightarrow> CallKind \<Rightarrow> address \<Rightarrow> address \<Rightarrow> hash \<Rightarrow> bytes \<Rightarrow> ibs \<Rightarrow> address" where
  "create_recipient x kind recipient0 sender salt input0 s =
     (if kind = Create then CreateAddress x sender (ibs_GetNonce sender s)
      else if kind = Create2 then CreateAddress2 x sender salt (Keccak256Hash x input0)
      else recipient0)"

definition create_code :: "CallKind \<Rightarrow> bytes \<Rightarrow> bytes" where
  "create_code kind input0 = (if kind = Create \<or> kind = Create2 then input0 else [])"

definition create_input :: "CallKind \<Rightarrow> bytes \<Rightarrow> bytes" where
  "create_input kind input0 = (if kind = Create \<or> kind = Create2 then [] else input0)"

definition create_prepared :: "HostImpl \<Rightarrow> address \<Rightarrow> address \<Rightarrow> ibs \<Rightarrow> ibs" where
  "create_prepared h recipient sender s =
     (let s1 = ibs_SetNonce sender (ibs_GetNonce sender s + 1) s
      in if IsBerlin (ChainRules (evm h))
         then snd (ibs_AddAddressToAccessList recipient s1) else s1)"

definition create_collides :: "externals \<Rightarrow> address \<Rightarrow> ibs \<Rightarrow> bool" where
  "create_collides x recipient s =
     (ibs_GetNonce recipient s \<noteq> 0
      \<or> (ibs_GetCodeHash (Keccak256Hash x) recipient s \<noteq> 0
          \<and> ibs_GetCodeHash (Keccak256Hash x) recipient s \<noteq> emptyCodeHash x))"

definition create_prechecks_pass ::
  "externals \<Rightarrow> HostImpl \<Rightarrow> address \<Rightarrow> address \<Rightarrow> uint256 \<Rightarrow> ibs \<Rightarrow> bool" where
  "create_prechecks_pass x h recipient sender val s =
     (CanTransfer (Context (evm h)) s sender val
      \<and> ibs_GetNonce sender s \<noteq> - 1
      \<and> \<not> create_collides x recipient (create_prepared h recipient sender s))"

definition create_entered :: "HostImpl \<Rightarrow> address \<Rightarrow> address \<Rightarrow> uint256 \<Rightarrow> ibs \<Rightarrow> ibs" where
  "create_entered h recipient sender val s =
     (let s3 = snd (ibs_Snapshot (create_prepared h recipient sender s));
          s4 = ibs_CreateAccount recipient True s3;
          s5 = (if IsSpuriousDragon (ChainRules (evm h)) then ibs_SetNonce recipient 1 s4 else s4)
      in Transfer (Context (evm h)) s5 sender recipient val False)"

text \<open>What the statements ask of a function the host calls on the state (the transfer, the
  interpreter): it reaches the backend through its operations only, so it extends the
  trace and removes nothing from the access list.\<close>

definition grows :: "ibs \<Rightarrow> ibs \<Rightarrow> bool" where
  "grows s t = (prefix (trace s) (trace t) \<and> accessList s \<subseteq> accessList t)"

text \<open>The rest of the creation path, from the return of the interpreter on: the checks on
  the code to deploy, the charge for storing it, and the decision to revert, as a function
  of the snapshot and of what the interpreter returned.\<close>

definition create_deploy ::
  "externals \<Rightarrow> HostImpl \<Rightarrow> address \<Rightarrow> ibs \<Rightarrow> (Result \<times> vm_error option) \<times> ibs
     \<Rightarrow> call_result \<times> ibs" where
  "create_deploy x h recipient snapshot run =
     (let ((evmone_result, e0), s7) = run;
          ret = Output evmone_result;
          gasLeft1 = GasLeft evmone_result;
          gasRefund1 = GasRefund evmone_result;
          e1 = (if e0 = None \<and> IsSpuriousDragon (ChainRules (evm h))
                     \<and> MaxCodeSize x < length ret
                   \<and> (\<not> IsAura (ChainRules (evm h))
                        \<or> HasEip3860 x (config h) (ChainRules (evm h)))
                then Some ErrMaxCodeSizeExceeded else e0);
          e2 = (if e1 = None \<and> IsLondon (ChainRules (evm h))
                     \<and> 1 \<le> length ret \<and> ret ! 0 = 0xEF
                then Some ErrInvalidCode else e1);
          createDataGas = (of_nat (length ret) :: uint64) * CreateDataGas x;
          (gasLeft2, s8, e3) =
             (if e2 = None then
                (if sint createDataGas \<le> sint gasLeft1
                 then (gasLeft1 - createDataGas, ibs_SetCode recipient ret s7, e2)
                 else if IsHomestead (ChainRules (evm h))
                 then (gasLeft1, s7, Some ErrCodeStoreOutOfGas)
                 else (gasLeft1, s7, e2))
              else (gasLeft1, s7, e2));
          s9 = (if e3 \<noteq> None
                     \<and> (IsHomestead (ChainRules (evm h)) \<or> e3 \<noteq> Some ErrCodeStoreOutOfGas)
                then ibs_RevertToSnapshot snapshot s8 else s8)
      in (\<lparr>output_r = ret, gasLeft = gasLeft2, gasRefund = gasRefund1, createAddr = 0,
            err = e3\<rparr>, s9))"

text \<open>The state in which \<open>handleCalls\<close> runs the code: after the snapshot and, for the kind
  \<open>Call\<close>, the creation of a missing recipient account and the transfer.\<close>

definition call_entered ::
  "HostImpl \<Rightarrow> CallKind \<Rightarrow> address \<Rightarrow> address \<Rightarrow> uint256 \<Rightarrow> ibs \<Rightarrow> ibs" where
  "call_entered h kind recipient sender val s =
     (let s1 = snd (ibs_Snapshot s)
      in if kind = Call then
           Transfer (Context (evm h))
             (if \<not> ibs_Exist recipient s1 then ibs_CreateAccount recipient False s1 else s1)
             sender recipient val (bailout h)
         else s1)"

subsection \<open>Concrete inputs\<close>

text \<open>
  Inputs at which the functions are evaluated. The transfer functions are the usual ones
  of the block context (compare balances; debit the sender unless bailing out, credit the
  recipient). The precompile stands for the pairing check at address 8, which rejects an
  input whose length is not a multiple of 192, and \<open>ex_RunPrecompiledContract\<close> charges the
  required gas and runs it. \<open>ex_Keccak256Hash\<close> and the address derivations are stand-ins
  for the functions of package \<open>crypto\<close>: all that is used of them is that the hash of the
  empty code differs from 0 and from the hash of the code in \<open>ex_state\<close>. The interpreter
  stand-in writes one storage slot of the recipient and returns the given result.
\<close>

definition ex_CanTransfer :: "ibs \<Rightarrow> address \<Rightarrow> uint256 \<Rightarrow> bool" where
  "ex_CanTransfer db addr amount = (\<not> ibs_GetBalance addr db < amount)"

definition ex_Transfer :: "ibs \<Rightarrow> address \<Rightarrow> address \<Rightarrow> uint256 \<Rightarrow> bool \<Rightarrow> ibs" where
  "ex_Transfer db sender recipient amount bail =
     ibs_AddBalance recipient amount (if \<not> bail then ibs_SubBalance sender amount db else db)"

definition ex_rules :: Rules where
  "ex_rules = \<lparr>IsHomestead = True, IsSpuriousDragon = True, IsBerlin = True, IsLondon = True,
                IsAura = False\<rparr>"

definition ex_ctx :: BlockContext where
  "ex_ctx = \<lparr>CanTransfer = ex_CanTransfer, Transfer = ex_Transfer, ctxBlockNumber = 100\<rparr>"

definition ex_pairing :: PrecompiledContract where
  "ex_pairing =
     \<lparr>RequiredGas = (\<lambda>input. 45000 + 34000 * of_nat (length input div 192)),
      Run = (\<lambda>input. if length input mod 192 \<noteq> 0
                      then ([], Some (ErrFault ''bad elliptic curve pairing size''))
                      else (replicate 31 0 @ [1], None))\<rparr>"

definition ex_RunPrecompiledContract ::
  "PrecompiledContract \<Rightarrow> bytes \<Rightarrow> uint64 \<Rightarrow> bytes \<times> uint64 \<times> vm_error option" where
  "ex_RunPrecompiledContract p input suppliedGas =
     (let gasCost = RequiredGas p input in
      if suppliedGas < gasCost then ([], 0, Some ErrOutOfGas)
      else (let (out, e) = Run p input in (out, suppliedGas - gasCost, e)))"

definition ex_evm :: EVM where
  "ex_evm = \<lparr>Context = ex_ctx, ChainRules = ex_rules,
              Precompile = (\<lambda>a. if a = 8 then Some ex_pairing else None)\<rparr>"

definition ex_host :: HostImpl where
  "ex_host = \<lparr>evm = ex_evm, txCtx = \<lparr>Origin = 0xA1\<rparr>, blockCtx = ex_ctx,
               config = \<lparr>RestoreState = False\<rparr>, rev_h = Cancun, bailout = False\<rparr>"

definition ex_Keccak256Hash :: "bytes \<Rightarrow> hash" where
  "ex_Keccak256Hash bs =
     (if bs = [] then 0xc5d2460186f7233c927e7db2dcc703c0e500b653ca82273b7bfad8045d85a470
      else 1 + of_nat (length bs))"

definition ex_Execute ::
  "bytes \<Rightarrow> int64 \<Rightarrow> vm_error option \<Rightarrow> CallKind \<Rightarrow> bool \<Rightarrow> int \<Rightarrow> int64 \<Rightarrow> address \<Rightarrow> address
     \<Rightarrow> bytes \<Rightarrow> hash \<Rightarrow> bytes \<Rightarrow> ibs \<Rightarrow> (Result \<times> vm_error option) \<times> ibs" where
  "ex_Execute out gl e kind static depth gas recipient sender input val code s =
     ((\<lparr>Output = out, GasLeft = gl, GasRefund = 0\<rparr>, e), ibs_SetState recipient 0 1 s)"

definition ex_ext :: "bytes \<Rightarrow> int64 \<Rightarrow> vm_error option \<Rightarrow> externals" where
  "ex_ext out gl e =
     \<lparr>Execute = ex_Execute out gl e,
      RunPrecompiledContract = ex_RunPrecompiledContract,
      Keccak256Hash = ex_Keccak256Hash,
      CreateAddress = (\<lambda>sender nonce. sender + ucast nonce + 0x11),
      CreateAddress2 = (\<lambda>sender salt inithash. sender + ucast salt + ucast inithash + 0x22),
      HasEip3860 = (\<lambda>c r. False),
      MaxCodeSize = 24576,
      CreateDataGas = 200\<rparr>"

text \<open>Two accounts: \<open>0xA1\<close> with nonce 0 and balance 1000, and \<open>0xB2\<close>, a contract with nonce
  1 and balance 5. With the stand-in derivation, a \<open>Create\<close> by \<open>0xA1\<close> targets \<open>0xB2\<close> and
  one by \<open>0xB2\<close> targets the free address \<open>0xC4\<close>.\<close>

definition ex_state :: ibs where
  "ex_state =
     \<lparr>accounts = [0xA1 \<mapsto> \<lparr>Nonce = 0, Balance = 1000, Code = [], selfdestructed = False,
                              newlyCreated = False\<rparr>,
                  0xB2 \<mapsto> \<lparr>Nonce = 1, Balance = 5, Code = [0x60, 0x00], selfdestructed = False,
                              newlyCreated = False\<rparr>],
      storage = (\<lambda>a k. 0), committed = (\<lambda>a k. 0), logs = [], accessList = {}, trace = []\<rparr>"

text \<open>The same with the nonce of \<open>0xA1\<close> at the largest \<open>uint64\<close>.\<close>

definition ex_state_maxnonce :: ibs where
  "ex_state_maxnonce =
     ex_state\<lparr>accounts := (accounts ex_state)(0xA1 \<mapsto>
        \<lparr>Nonce = 0xFFFFFFFFFFFFFFFF, Balance = 1000, Code = [], selfdestructed = False,
         newlyCreated = False\<rparr>)\<rparr>"

section \<open>Properties\<close>

subsection \<open>Reading the backend after an update\<close>

lemma Balance_getOrNew: "Balance (getOrNew a s) = ibs_GetBalance a s"
  by (simp add: getOrNew_def ibs_GetBalance_def emptyAccount_def split: option.splits)

lemma GetBalance_SubBalance:
  "ibs_GetBalance a (ibs_SubBalance a' v s) =
     (if a = a' then ibs_GetBalance a s - v else ibs_GetBalance a s)"
  by (simp add: ibs_SubBalance_def ibs_GetBalance_def getOrNew_def emptyAccount_def
      split: option.splits)

lemma GetBalance_AddBalance:
  "ibs_GetBalance a (ibs_AddBalance a' v s) =
     (if a = a' then ibs_GetBalance a s + v else ibs_GetBalance a s)"
  by (simp add: ibs_AddBalance_def ibs_GetBalance_def getOrNew_def emptyAccount_def
      split: option.splits)

lemma flags_SubBalance:
  "createdInTx a (ibs_SubBalance a' v s) = createdInTx a s"
  "ibs_HasSelfdestructed a (ibs_SubBalance a' v s) = ibs_HasSelfdestructed a s"
  "ibs_Exist a (ibs_SubBalance a' v s) = (a = a' \<or> ibs_Exist a s)"
  by (simp_all add: ibs_SubBalance_def createdInTx_def ibs_HasSelfdestructed_def ibs_Exist_def
      getOrNew_def emptyAccount_def split: option.splits)

lemma flags_AddBalance:
  "createdInTx a (ibs_AddBalance a' v s) = createdInTx a s"
  "ibs_HasSelfdestructed a (ibs_AddBalance a' v s) = ibs_HasSelfdestructed a s"
  "ibs_Exist a (ibs_AddBalance a' v s) = (a = a' \<or> ibs_Exist a s)"
  by (simp_all add: ibs_AddBalance_def createdInTx_def ibs_HasSelfdestructed_def ibs_Exist_def
      getOrNew_def emptyAccount_def split: option.splits)

lemma Selfdestruct6780_reads:
  "ibs_HasSelfdestructed a (ibs_Selfdestruct6780 a s) =
     (createdInTx a s \<or> ibs_HasSelfdestructed a s)"
  "ibs_GetBalance a' (ibs_Selfdestruct6780 a s) =
     (if a' = a \<and> createdInTx a s then 0 else ibs_GetBalance a' s)"
  "ibs_Exist a' (ibs_Selfdestruct6780 a s) = ibs_Exist a' s"
  by (simp_all add: ibs_Selfdestruct6780_def ibs_Selfdestruct_def createdInTx_def
      ibs_HasSelfdestructed_def ibs_GetBalance_def ibs_Exist_def split: option.splits)

subsection \<open>SetStorage\<close>

text \<open>
  C1. For every original, current and new value of a slot, \<open>SetStorage\<close> returns the one
  status that the table of section 4.1 (\<open>classify\<close>, with dirty = original differs from
  current and restored = original equals the new value) gives for them. It has no failing
  branch, and in every case the state it leaves is the one in which the new value has been
  written to the slot, so that the slot then reads as the new value, whatever the status.
\<close>

theorem SetStorage_classify:
  "HostImpl_SetStorage h addr key val s =
     (classify (ibs_GetCommittedState addr key s) (ibs_GetState addr key s) val,
      ibs_SetState addr key val s)
   \<and> ibs_GetState addr key (snd (HostImpl_SetStorage h addr key val s)) = val"
  by (simp add: HostImpl_SetStorage_def classify_def Let_def ibs_GetState_def ibs_SetState_def)

subsection \<open>EmitLog\<close>

text \<open>
  C10. \<open>EmitLog\<close> appends one log record whose address is the origin of the transaction
  context, not the argument \<open>addr\<close>; topics and data are those passed in. The argument
  \<open>addr\<close> has no effect: any two values of it give the same state.
\<close>

theorem EmitLog_origin:
  "logs (HostImpl_EmitLog h addr topics data s) =
     logs s @ [\<lparr>Address = Origin (txCtx h), Topics = topics, Data = data,
                BlockNumber = ctxBlockNumber (blockCtx h)\<rparr>]
   \<and> HostImpl_EmitLog h addr topics data s = HostImpl_EmitLog h addr' topics data s"
  by (simp add: HostImpl_EmitLog_def ibs_AddLog_def)

subsection \<open>Selfdestruct\<close>

lemma Selfdestruct_cancun_eq:
  assumes "rev_rank Cancun \<le> rev_rank (rev_h h)"
  shows "HostImpl_Selfdestruct h addr beneficiary s =
     (ibs_HasSelfdestructed addr
        (ibs_Selfdestruct6780 addr
           (ibs_AddBalance beneficiary (ibs_GetBalance addr s)
              (ibs_SubBalance addr (ibs_GetBalance addr s) s))),
      ibs_Selfdestruct6780 addr
        (ibs_AddBalance beneficiary (ibs_GetBalance addr s)
           (ibs_SubBalance addr (ibs_GetBalance addr s) s)))"
  using assms by (simp add: HostImpl_Selfdestruct_def Let_def)

text \<open>
  C9. Under a revision at or above Cancun, \<open>Selfdestruct\<close> moves the whole balance of the
  account to the beneficiary in every case: the account is left with balance 0 and the
  beneficiary gains the amount (when the two are the same account the balance stays, unless
  the account is destructed by this very call, which empties it). The account is marked
  destructed by the call only if it was created within the current transaction, the
  boolean returned is the mark of the account after the call, and the account is present
  afterwards. In particular an account that was not created in the current transaction
  and was not marked before is not marked, and the call returns false.
\<close>

theorem Selfdestruct_cancun:
  assumes "rev_rank Cancun \<le> rev_rank (rev_h h)"
      and "HostImpl_Selfdestruct h addr beneficiary s = (r, s')"
  shows "r = (createdInTx addr s \<or> ibs_HasSelfdestructed addr s)
       \<and> ibs_HasSelfdestructed addr s' = r
       \<and> ibs_Exist addr s'
       \<and> ibs_GetBalance addr s' =
           (if createdInTx addr s then 0
            else if addr = beneficiary then ibs_GetBalance addr s else 0)
       \<and> ibs_GetBalance beneficiary s' =
           (if addr = beneficiary then (if createdInTx addr s then 0 else ibs_GetBalance addr s)
            else ibs_GetBalance beneficiary s + ibs_GetBalance addr s)"
proof -
  from assms(2) have s': "s' = ibs_Selfdestruct6780 addr
        (ibs_AddBalance beneficiary (ibs_GetBalance addr s)
           (ibs_SubBalance addr (ibs_GetBalance addr s) s))"
    and r: "r = ibs_HasSelfdestructed addr s'"
    unfolding Selfdestruct_cancun_eq [OF assms(1)] by auto
  have 1: "ibs_HasSelfdestructed addr s' = (createdInTx addr s \<or> ibs_HasSelfdestructed addr s)"
    unfolding s' by (simp add: Selfdestruct6780_reads flags_AddBalance flags_SubBalance)
  have 2: "ibs_Exist addr s'"
    unfolding s' by (simp add: Selfdestruct6780_reads flags_AddBalance flags_SubBalance)
  have 3: "ibs_GetBalance addr s' =
           (if createdInTx addr s then 0
            else if addr = beneficiary then ibs_GetBalance addr s else 0)"
    unfolding s'
    by (simp add: Selfdestruct6780_reads flags_AddBalance flags_SubBalance
        GetBalance_AddBalance GetBalance_SubBalance)
  have 4: "ibs_GetBalance beneficiary s' =
           (if addr = beneficiary then (if createdInTx addr s then 0 else ibs_GetBalance addr s)
            else ibs_GetBalance beneficiary s + ibs_GetBalance addr s)"
    unfolding s'
    by (simp add: Selfdestruct6780_reads flags_AddBalance flags_SubBalance
        GetBalance_AddBalance GetBalance_SubBalance)
  from r 1 2 3 4 show ?thesis by simp
qed

text \<open>The contract \<open>0xB2\<close> of \<open>ex_state\<close>, not created in the transaction, destructs in favour
  of \<open>0xA1\<close>: its balance of 5 moves, it is not marked and it is still there.\<close>

theorem Selfdestruct_cancun_witness:
  "rev_rank Cancun \<le> rev_rank (rev_h ex_host)
   \<and> \<not> createdInTx 0xB2 ex_state
   \<and> \<not> fst (HostImpl_Selfdestruct ex_host 0xB2 0xA1 ex_state)
   \<and> \<not> ibs_HasSelfdestructed 0xB2 (snd (HostImpl_Selfdestruct ex_host 0xB2 0xA1 ex_state))
   \<and> ibs_Exist 0xB2 (snd (HostImpl_Selfdestruct ex_host 0xB2 0xA1 ex_state))
   \<and> ibs_GetBalance 0xB2 (snd (HostImpl_Selfdestruct ex_host 0xB2 0xA1 ex_state)) = 0
   \<and> ibs_GetBalance 0xA1 (snd (HostImpl_Selfdestruct ex_host 0xB2 0xA1 ex_state)) = 1005"
proof -
  have h1: "rev_rank Cancun \<le> rev_rank (rev_h ex_host)"
    by (simp add: ex_host_def)
  have h2: "HostImpl_Selfdestruct ex_host 0xB2 0xA1 ex_state =
              (fst (HostImpl_Selfdestruct ex_host 0xB2 0xA1 ex_state),
               snd (HostImpl_Selfdestruct ex_host 0xB2 0xA1 ex_state))"
    by simp
  have pre: "\<not> createdInTx 0xB2 ex_state" "\<not> ibs_HasSelfdestructed 0xB2 ex_state"
    "ibs_GetBalance 0xB2 ex_state = 5" "ibs_GetBalance 0xA1 ex_state = 1000"
    by (simp_all add: ex_state_def createdInTx_def ibs_HasSelfdestructed_def ibs_GetBalance_def)
  have ne: "(0xB2 :: address) \<noteq> 0xA1" by simp
  show ?thesis
    using Selfdestruct_cancun [OF h1 h2] h1 pre ne by simp
qed

subsection \<open>The creation path of Call\<close>

lemma nonce_overflow_iff: "(n + 1 < n) = (n = (- 1 :: uint64))"
proof
  assume a: "n + 1 < n"
  have b: "unat n < 2 ^ 64" using unsigned_less [of n, where ?'a = nat] by simp
  from a have "unat (n + 1) < unat n" by (simp add: word_less_nat_alt)
  then have "unat n + 1 = 2 ^ 64" using b
    by (simp add: unat_plus_if' split: if_splits)
  then have "unat (n + 1) = 0" by (simp add: unat_plus_if')
  then have "n + 1 = 0" by (simp add: unat_eq_0)
  then show "n = - 1" by (rule max_word_wrap)
next
  assume "n = - 1"
  then show "n + 1 < n" by (simp add: word_gt_0)
qed

text \<open>For a kind other than the three message-call kinds, \<open>Call\<close> is its three prechecks
  followed by \<open>create_deploy\<close> on what the interpreter returns.\<close>

lemma Call_creation_unfold:
  assumes "kind \<noteq> Call" "kind \<noteq> DelegateCall" "kind \<noteq> CallCode"
  shows "HostImpl_Call x h kind recipient0 sender val input0 gas depth static salt codeAddress s =
     (if \<not> CanTransfer (Context (evm h)) s sender val
      then (\<lparr>output_r = [], gasLeft = gas, gasRefund = 0, createAddr = 0,
              err = Some ErrInsufficientBalance\<rparr>, s)
      else if ibs_GetNonce sender s + 1 < ibs_GetNonce sender s
      then (\<lparr>output_r = [], gasLeft = gas, gasRefund = 0, createAddr = 0,
              err = Some ErrNonceUintOverflow\<rparr>, s)
      else if create_collides x (create_recipient x kind recipient0 sender salt input0 s)
                (create_prepared h (create_recipient x kind recipient0 sender salt input0 s) sender s)
      then (\<lparr>output_r = [], gasLeft = gas, gasRefund = 0, createAddr = 0,
              err = Some ErrContractAddressCollision\<rparr>,
            create_prepared h (create_recipient x kind recipient0 sender salt input0 s) sender s)
      else create_deploy x h (create_recipient x kind recipient0 sender salt input0 s)
             (create_prepared h (create_recipient x kind recipient0 sender salt input0 s) sender s)
             (Execute x kind static depth gas
                (create_recipient x kind recipient0 sender salt input0 s) sender
                (create_input kind input0) val (create_code kind input0)
                (create_entered h (create_recipient x kind recipient0 sender salt input0 s)
                   sender val s)))"
  using assms
  unfolding HostImpl_Call_def create_deploy_def create_recipient_def create_input_def
    create_code_def create_entered_def create_collides_def create_prepared_def ibs_Snapshot_def
  by (cases kind) (simp_all add: Let_def split del: if_split cong del: if_weak_cong)

lemma Call_creation_passed:
  assumes "kind \<noteq> Call" "kind \<noteq> DelegateCall" "kind \<noteq> CallCode"
      and "r = create_recipient x kind recipient0 sender salt input0 s"
      and "create_prechecks_pass x h r sender val s"
  shows "HostImpl_Call x h kind recipient0 sender val input0 gas depth static salt codeAddress s =
           create_deploy x h r (create_prepared h r sender s)
             (Execute x kind static depth gas r sender (create_input kind input0) val
                (create_code kind input0) (create_entered h r sender val s))"
  using assms(4,5)
  by (simp add: Call_creation_unfold [OF assms(1-3)] create_prechecks_pass_def
      nonce_overflow_iff)

lemma create_prepared_fields:
  "accounts (create_prepared h r a s) =
     (accounts s)(a \<mapsto> (getOrNew a s)\<lparr>Nonce := ibs_GetNonce a s + 1\<rparr>)"
  "storage (create_prepared h r a s) = storage s"
  "committed (create_prepared h r a s) = committed s"
  "logs (create_prepared h r a s) = logs s"
  "accessList (create_prepared h r a s) =
     (if IsBerlin (ChainRules (evm h)) then insert r (accessList s) else accessList s)"
  "trace (create_prepared h r a s) =
     trace s @ OpSetNonce a (ibs_GetNonce a s + 1)
       # (if IsBerlin (ChainRules (evm h)) then [OpAddAddressToAccessList r] else [])"
  by (simp_all add: create_prepared_def Let_def ibs_SetNonce_def ibs_AddAddressToAccessList_def)

lemma GetNonce_create_prepared:
  "ibs_GetNonce b (create_prepared h r a s) =
     (if b = a then ibs_GetNonce a s + 1 else ibs_GetNonce b s)"
  by (simp add: ibs_GetNonce_def create_prepared_fields)

lemma GetCodeHash_create_prepared:
  "b \<noteq> a \<Longrightarrow> ibs_GetCodeHash k b (create_prepared h r a s) = ibs_GetCodeHash k b s"
  by (simp add: ibs_GetCodeHash_def create_prepared_fields)

lemma create_collides_prepared:
  assumes "create_collides x r s" and "ibs_GetNonce a s \<noteq> - 1"
  shows "create_collides x r (create_prepared h r a s)"
proof (cases "r = a")
  case True
  have "ibs_GetNonce a s + 1 \<noteq> 0" using assms(2) max_word_wrap by blast
  with True show ?thesis by (simp add: create_collides_def GetNonce_create_prepared)
next
  case False
  with assms(1) show ?thesis
    by (simp add: create_collides_def GetNonce_create_prepared GetCodeHash_create_prepared)
qed

lemma prechecks_recipient_not_sender:
  assumes "create_prechecks_pass x h r a val s"
  shows "r \<noteq> a"
proof
  assume "r = a"
  moreover have "ibs_GetNonce a s + 1 \<noteq> 0"
    using assms max_word_wrap by (auto simp: create_prechecks_pass_def)
  ultimately have "create_collides x r (create_prepared h r a s)"
    by (simp add: create_collides_def GetNonce_create_prepared)
  with assms show False by (simp add: create_prechecks_pass_def)
qed

lemmas ex_defs =
  ex_host_def ex_evm_def ex_ctx_def ex_rules_def ex_ext_def ex_Execute_def ex_CanTransfer_def
  ex_Transfer_def ex_Keccak256Hash_def ex_pairing_def ex_RunPrecompiledContract_def

text \<open>
  C6, as amended. For a creation whose sender passes the balance precheck and has the
  largest \<open>uint64\<close> as its nonce, \<open>Call\<close> fails with \<open>ErrNonceUintOverflow\<close> and returns the
  state it was given: the nonce is not incremented, the access list is not touched, no
  snapshot is taken and nothing else is changed.
\<close>

theorem Call_nonce_overflow:
  assumes "kind \<noteq> Call" "kind \<noteq> DelegateCall" "kind \<noteq> CallCode"
      and "CanTransfer (Context (evm h)) s sender val"
      and "ibs_GetNonce sender s = - 1"
  shows "HostImpl_Call x h kind recipient0 sender val input0 gas depth static salt codeAddress s =
           (\<lparr>output_r = [], gasLeft = gas, gasRefund = 0, createAddr = 0,
             err = Some ErrNonceUintOverflow\<rparr>, s)"
proof -
  have "ibs_GetNonce sender s + 1 < ibs_GetNonce sender s"
    by (simp only: nonce_overflow_iff assms(5))
  with assms(4) show ?thesis
    by (simp add: Call_creation_unfold [OF assms(1-3)])
qed

text \<open>A \<open>Create\<close> of value 0 by \<open>0xA1\<close>, whose nonce is the largest \<open>uint64\<close>.\<close>

theorem Call_nonce_overflow_witness:
  "CanTransfer (Context (evm ex_host)) ex_state_maxnonce 0xA1 0
   \<and> ibs_GetNonce 0xA1 ex_state_maxnonce = - 1
   \<and> HostImpl_Call (ex_ext [] 0 None) ex_host Create 0 0xA1 0 [0x00] 100000 0 False 0 0
        ex_state_maxnonce =
      (\<lparr>output_r = [], gasLeft = 100000, gasRefund = 0, createAddr = 0,
        err = Some ErrNonceUintOverflow\<rparr>, ex_state_maxnonce)"
proof -
  have c: "CanTransfer (Context (evm ex_host)) ex_state_maxnonce 0xA1 0"
    by (simp add: ex_defs word_less_nat_alt)
  have n: "ibs_GetNonce 0xA1 ex_state_maxnonce = - 1"
    by (simp add: ex_state_maxnonce_def ibs_GetNonce_def)
  show ?thesis
    using Call_nonce_overflow [of Create ex_host ex_state_maxnonce "0xA1" 0, OF _ _ _ c n] c n
    by simp
qed

text \<open>C6 as stated fails when the balance precheck does not pass: with the nonce at the
  largest \<open>uint64\<close> and a value of 5000 against a balance of 1000, \<open>Call\<close> fails with
  \<open>ErrInsufficientBalance\<close>, not with \<open>ErrNonceUintOverflow\<close>.\<close>

theorem Call_nonce_overflow_counterexample:
  "ibs_GetNonce 0xA1 ex_state_maxnonce = - 1
   \<and> err (fst (HostImpl_Call (ex_ext [] 0 None) ex_host Create 0 0xA1 5000 [0x00] 100000 0
                  False 0 0 ex_state_maxnonce)) = Some ErrInsufficientBalance
   \<and> err (fst (HostImpl_Call (ex_ext [] 0 None) ex_host Create 0 0xA1 5000 [0x00] 100000 0
                  False 0 0 ex_state_maxnonce)) \<noteq> Some ErrNonceUintOverflow"
proof -
  have c: "\<not> CanTransfer (Context (evm ex_host)) ex_state_maxnonce 0xA1 5000"
    by (simp add: ex_defs ex_state_maxnonce_def ex_state_def ibs_GetBalance_def)
  have n: "ibs_GetNonce 0xA1 ex_state_maxnonce = - 1"
    by (simp add: ex_state_maxnonce_def ibs_GetNonce_def)
  show ?thesis using c n by (simp add: Call_creation_unfold)
qed

text \<open>
  C5, as amended. For a \<open>Create\<close> whose sender passes the balance precheck and whose nonce
  is below the largest \<open>uint64\<close>, if the derived recipient holds a nonzero nonce or code
  whose hash is neither zero nor the hash of the empty code, \<open>Call\<close> fails with
  \<open>ErrContractAddressCollision\<close>. The state it returns differs from the one it was given
  in this only: the nonce of the sender is one higher, and under Berlin the recipient is
  in the access list. The trace shows these operations and no other, so no snapshot was
  taken.
\<close>

theorem Call_create_collision:
  assumes "CanTransfer (Context (evm h)) s sender val"
      and "ibs_GetNonce sender s \<noteq> - 1"
      and "r = CreateAddress x sender (ibs_GetNonce sender s)"
      and "create_collides x r s"
      and "HostImpl_Call x h Create recipient0 sender val input0 gas depth static salt codeAddress s
             = (res, s')"
  shows "res = \<lparr>output_r = [], gasLeft = gas, gasRefund = 0, createAddr = 0,
                 err = Some ErrContractAddressCollision\<rparr>
       \<and> ibs_GetNonce sender s' = ibs_GetNonce sender s + 1
       \<and> accounts s' = (accounts s)(sender \<mapsto> (getOrNew sender s)\<lparr>Nonce := ibs_GetNonce sender s + 1\<rparr>)
       \<and> storage s' = storage s \<and> committed s' = committed s \<and> logs s' = logs s
       \<and> accessList s' =
            (if IsBerlin (ChainRules (evm h)) then insert r (accessList s) else accessList s)
       \<and> trace s' =
            trace s @ OpSetNonce sender (ibs_GetNonce sender s + 1)
              # (if IsBerlin (ChainRules (evm h)) then [OpAddAddressToAccessList r] else [])"
proof -
  have r: "r = create_recipient x Create recipient0 sender salt input0 s"
    by (simp add: assms(3) create_recipient_def)
  have c: "create_collides x r (create_prepared h r sender s)"
    using assms(4,2) by (rule create_collides_prepared)
  have "HostImpl_Call x h Create recipient0 sender val input0 gas depth static salt codeAddress s =
          (\<lparr>output_r = [], gasLeft = gas, gasRefund = 0, createAddr = 0,
            err = Some ErrContractAddressCollision\<rparr>, create_prepared h r sender s)"
    using assms(1,2) c by (simp add: Call_creation_unfold nonce_overflow_iff r [symmetric])
  with assms(5) have res: "res = \<lparr>output_r = [], gasLeft = gas, gasRefund = 0, createAddr = 0,
                 err = Some ErrContractAddressCollision\<rparr>"
    and s': "s' = create_prepared h r sender s"
    by simp_all
  show ?thesis
    unfolding s' res by (simp add: create_prepared_fields GetNonce_create_prepared)
qed

text \<open>A \<open>Create\<close> of value 0 by \<open>0xA1\<close> (nonce 0), which targets the contract \<open>0xB2\<close>.\<close>

theorem Call_create_collision_witness:
  "CanTransfer (Context (evm ex_host)) ex_state 0xA1 0
   \<and> ibs_GetNonce 0xA1 ex_state \<noteq> - 1
   \<and> CreateAddress (ex_ext [] 0 None) 0xA1 (ibs_GetNonce 0xA1 ex_state) = 0xB2
   \<and> create_collides (ex_ext [] 0 None) 0xB2 ex_state
   \<and> fst (HostImpl_Call (ex_ext [] 0 None) ex_host Create 0 0xA1 0 [0x00] 100000 0 False 0 0
             ex_state) =
        \<lparr>output_r = [], gasLeft = 100000, gasRefund = 0, createAddr = 0,
          err = Some ErrContractAddressCollision\<rparr>
   \<and> ibs_GetNonce 0xA1 (snd (HostImpl_Call (ex_ext [] 0 None) ex_host Create 0 0xA1 0 [0x00]
                                  100000 0 False 0 0 ex_state)) = 1
   \<and> trace (snd (HostImpl_Call (ex_ext [] 0 None) ex_host Create 0 0xA1 0 [0x00]
                     100000 0 False 0 0 ex_state)) =
        [OpSetNonce 0xA1 1, OpAddAddressToAccessList 0xB2]"
proof -
  have c: "CanTransfer (Context (evm ex_host)) ex_state 0xA1 0"
    by (simp add: ex_defs word_less_nat_alt)
  have n0: "ibs_GetNonce 0xA1 ex_state = 0"
    by (simp add: ex_state_def ibs_GetNonce_def)
  have n: "ibs_GetNonce 0xA1 ex_state \<noteq> - 1"
    by (simp add: n0)
  have r: "0xB2 = CreateAddress (ex_ext [] 0 None) 0xA1 (ibs_GetNonce 0xA1 ex_state)"
    by (simp add: n0 ex_ext_def)
  have k: "create_collides (ex_ext [] 0 None) 0xB2 ex_state"
    by (simp add: create_collides_def ex_state_def ibs_GetNonce_def)
  have b: "IsBerlin (ChainRules (evm ex_host))" "trace ex_state = []"
    by (simp_all add: ex_defs ex_state_def)
  have e: "HostImpl_Call (ex_ext [] 0 None) ex_host Create 0 0xA1 0 [0x00] 100000 0 False 0 0
             ex_state =
           (fst (HostImpl_Call (ex_ext [] 0 None) ex_host Create 0 0xA1 0 [0x00] 100000 0 False
                   0 0 ex_state),
            snd (HostImpl_Call (ex_ext [] 0 None) ex_host Create 0 0xA1 0 [0x00] 100000 0 False
                   0 0 ex_state))"
    by simp
  show ?thesis
    using Call_create_collision [OF c n r k e] c n r [symmetric] k n0 b by simp
qed

text \<open>C5 as stated fails in two ways. When the value exceeds the balance (5000 against
  1000), the same \<open>Create\<close> fails with \<open>ErrInsufficientBalance\<close> and the nonce of the sender
  is not incremented. And under Berlin the collision leaves a second change behind the
  nonce: the recipient, absent from the access list before, is in it afterwards.\<close>

theorem Call_create_collision_counterexample:
  "create_collides (ex_ext [] 0 None) 0xB2 ex_state
   \<and> CreateAddress (ex_ext [] 0 None) 0xA1 (ibs_GetNonce 0xA1 ex_state) = 0xB2
   \<and> err (fst (HostImpl_Call (ex_ext [] 0 None) ex_host Create 0 0xA1 5000 [0x00] 100000 0
                  False 0 0 ex_state)) = Some ErrInsufficientBalance
   \<and> ibs_GetNonce 0xA1 (snd (HostImpl_Call (ex_ext [] 0 None) ex_host Create 0 0xA1 5000 [0x00]
                                  100000 0 False 0 0 ex_state)) = ibs_GetNonce 0xA1 ex_state
   \<and> err (fst (HostImpl_Call (ex_ext [] 0 None) ex_host Create 0 0xA1 0 [0x00] 100000 0
                  False 0 0 ex_state)) = Some ErrContractAddressCollision
   \<and> 0xB2 \<notin> accessList ex_state
   \<and> 0xB2 \<in> accessList (snd (HostImpl_Call (ex_ext [] 0 None) ex_host Create 0 0xA1 0 [0x00]
                                   100000 0 False 0 0 ex_state))"
proof -
  have c: "CanTransfer (Context (evm ex_host)) ex_state 0xA1 0"
    "\<not> CanTransfer (Context (evm ex_host)) ex_state 0xA1 5000"
    by (simp_all add: ex_defs word_less_nat_alt ex_state_def ibs_GetBalance_def)
  have n0: "ibs_GetNonce 0xA1 ex_state = 0"
    by (simp add: ex_state_def ibs_GetNonce_def)
  have r: "create_recipient (ex_ext [] 0 None) Create 0 0xA1 0 [0x00] ex_state = 0xB2"
    by (simp add: create_recipient_def n0 ex_ext_def)
  have k: "create_collides (ex_ext [] 0 None) 0xB2 ex_state"
    by (simp add: create_collides_def ex_state_def ibs_GetNonce_def)
  have k': "create_collides (ex_ext [] 0 None) 0xB2 (create_prepared ex_host 0xB2 0xA1 ex_state)"
    using k by (rule create_collides_prepared) (simp add: n0)
  have b: "IsBerlin (ChainRules (evm ex_host))" "accessList ex_state = {}"
    by (simp_all add: ex_defs ex_state_def)
  show ?thesis
    using c n0 r k k' b
    by (simp add: Call_creation_unfold create_prepared_fields ex_ext_def)
qed

subsection \<open>Deployment\<close>

lemma create_deploy_max_code_size:
  assumes "IsSpuriousDragon (ChainRules (evm h))"
      and "MaxCodeSize x < length (Output res)"
      and "\<not> IsAura (ChainRules (evm h)) \<or> HasEip3860 x (config h) (ChainRules (evm h))"
  shows "create_deploy x h r snapshot ((res, None), s7) =
           (\<lparr>output_r = Output res, gasLeft = GasLeft res, gasRefund = GasRefund res,
             createAddr = 0, err = Some ErrMaxCodeSizeExceeded\<rparr>,
            ibs_RevertToSnapshot snapshot s7)"
  using assms by (simp add: create_deploy_def Let_def)

lemma RevertToSnapshot_fields:
  "accounts (ibs_RevertToSnapshot snapshot t) = accounts snapshot"
  "storage (ibs_RevertToSnapshot snapshot t) = storage snapshot"
  "committed (ibs_RevertToSnapshot snapshot t) = committed snapshot"
  "logs (ibs_RevertToSnapshot snapshot t) = logs snapshot"
  "accessList (ibs_RevertToSnapshot snapshot t) = accessList t"
  "trace (ibs_RevertToSnapshot snapshot t) = trace t @ [OpRevertToSnapshot]"
  by (simp_all add: ibs_RevertToSnapshot_def)

text \<open>
  C4. Take a creation that reaches the interpreter (it passes the balance, nonce and
  collision prechecks), whose interpreter run returns no error and an output longer than
  \<open>MaxCodeSize\<close>, under rules with Spurious Dragon active and, on an Aura chain, EIP-3860
  as well. Then \<open>Call\<close> fails with \<open>ErrMaxCodeSizeExceeded\<close>, and the state it returns is the
  state the interpreter left, reverted to the snapshot taken before the recipient account
  was created: accounts, storage and logs are those of the snapshot (the state given to
  \<open>Call\<close> with the nonce of the sender incremented). The recipient account is as it was
  before the call and its code is unchanged.
\<close>

theorem Call_max_code_size:
  assumes "kind \<noteq> Call" "kind \<noteq> DelegateCall" "kind \<noteq> CallCode"
      and "r = create_recipient x kind recipient0 sender salt input0 s"
      and "create_prechecks_pass x h r sender val s"
      and "Execute x kind static depth gas r sender (create_input kind input0) val
             (create_code kind input0) (create_entered h r sender val s) = ((res, None), s7)"
      and "IsSpuriousDragon (ChainRules (evm h))"
      and "MaxCodeSize x < length (Output res)"
      and "\<not> IsAura (ChainRules (evm h)) \<or> HasEip3860 x (config h) (ChainRules (evm h))"
  shows "HostImpl_Call x h kind recipient0 sender val input0 gas depth static salt codeAddress s =
           (\<lparr>output_r = Output res, gasLeft = GasLeft res, gasRefund = GasRefund res,
             createAddr = 0, err = Some ErrMaxCodeSizeExceeded\<rparr>,
            ibs_RevertToSnapshot (create_prepared h r sender s) s7)
       \<and> accounts (ibs_RevertToSnapshot (create_prepared h r sender s) s7) =
            (accounts s)(sender \<mapsto> (getOrNew sender s)\<lparr>Nonce := ibs_GetNonce sender s + 1\<rparr>)
       \<and> storage (ibs_RevertToSnapshot (create_prepared h r sender s) s7) = storage s
       \<and> logs (ibs_RevertToSnapshot (create_prepared h r sender s) s7) = logs s
       \<and> accounts (ibs_RevertToSnapshot (create_prepared h r sender s) s7) r = accounts s r
       \<and> ibs_GetCode r (ibs_RevertToSnapshot (create_prepared h r sender s) s7) = ibs_GetCode r s"
proof -
  have ne: "r \<noteq> sender" using assms(5) by (rule prechecks_recipient_not_sender)
  have "HostImpl_Call x h kind recipient0 sender val input0 gas depth static salt codeAddress s =
          create_deploy x h r (create_prepared h r sender s) ((res, None), s7)"
    using Call_creation_passed [OF assms(1-5)] assms(6) by simp
  then have 1: "HostImpl_Call x h kind recipient0 sender val input0 gas depth static salt
                  codeAddress s =
           (\<lparr>output_r = Output res, gasLeft = GasLeft res, gasRefund = GasRefund res,
             createAddr = 0, err = Some ErrMaxCodeSizeExceeded\<rparr>,
            ibs_RevertToSnapshot (create_prepared h r sender s) s7)"
    by (simp add: create_deploy_max_code_size [OF assms(7-9)])
  have 2: "accounts (ibs_RevertToSnapshot (create_prepared h r sender s) s7) =
            (accounts s)(sender \<mapsto> (getOrNew sender s)\<lparr>Nonce := ibs_GetNonce sender s + 1\<rparr>)"
    by (simp add: RevertToSnapshot_fields create_prepared_fields)
  have 3: "accounts (ibs_RevertToSnapshot (create_prepared h r sender s) s7) r = accounts s r"
    using ne by (simp add: 2)
  have 4: "ibs_GetCode r (ibs_RevertToSnapshot (create_prepared h r sender s) s7) = ibs_GetCode r s"
    by (simp add: ibs_GetCode_def 3)
  from 1 2 3 4 show ?thesis
    by (simp add: RevertToSnapshot_fields create_prepared_fields)
qed

text \<open>A \<open>Create\<close> of value 0 by \<open>0xB2\<close> (nonce 1), which targets the free address \<open>0xC4\<close>; the
  interpreter writes a storage slot of the new account and returns 24577 bytes.\<close>

theorem Call_max_code_size_witness:
  "create_prechecks_pass (ex_ext (replicate 24577 0) 1000 None) ex_host 0xC4 0xB2 0 ex_state
   \<and> MaxCodeSize (ex_ext (replicate 24577 0) 1000 None)
       < length (replicate 24577 (0 :: 8 word))
   \<and> err (fst (HostImpl_Call (ex_ext (replicate 24577 0) 1000 None) ex_host Create 0 0xB2 0
                  [0x00] 100000 0 False 0 0 ex_state)) = Some ErrMaxCodeSizeExceeded
   \<and> accounts (snd (HostImpl_Call (ex_ext (replicate 24577 0) 1000 None) ex_host Create 0 0xB2 0
                  [0x00] 100000 0 False 0 0 ex_state)) 0xC4 = None
   \<and> storage (snd (HostImpl_Call (ex_ext (replicate 24577 0) 1000 None) ex_host Create 0 0xB2 0
                  [0x00] 100000 0 False 0 0 ex_state)) 0xC4 0 = 0
   \<and> ibs_GetNonce 0xB2 (snd (HostImpl_Call (ex_ext (replicate 24577 0) 1000 None) ex_host
                  Create 0 0xB2 0 [0x00] 100000 0 False 0 0 ex_state)) = 2"
proof -
  let ?x = "ex_ext (replicate 24577 0) 1000 None"
  have n1: "ibs_GetNonce 0xB2 ex_state = 1"
    by (simp add: ex_state_def ibs_GetNonce_def)
  have r: "0xC4 = create_recipient ?x Create 0 0xB2 0 [0x00] ex_state"
    by (simp add: create_recipient_def n1 ex_ext_def)
  have p: "create_prechecks_pass ?x ex_host 0xC4 0xB2 0 ex_state"
    by (simp add: create_prechecks_pass_def create_collides_def GetNonce_create_prepared
        ibs_GetCodeHash_def create_prepared_fields n1 ex_defs word_less_nat_alt)
       (simp add: ex_state_def ibs_GetNonce_def)
  have e: "Execute ?x Create False 0 100000 0xC4 0xB2 (create_input Create [0x00]) 0
             (create_code Create [0x00]) (create_entered ex_host 0xC4 0xB2 0 ex_state) =
           ((\<lparr>Output = replicate 24577 0, GasLeft = 1000, GasRefund = 0\<rparr>, None),
            ibs_SetState 0xC4 0 1 (create_entered ex_host 0xC4 0xB2 0 ex_state))"
    by (simp add: ex_ext_def ex_Execute_def)
  have sd: "IsSpuriousDragon (ChainRules (evm ex_host))"
    and au: "\<not> IsAura (ChainRules (evm ex_host))
             \<or> HasEip3860 ?x (config ex_host) (ChainRules (evm ex_host))"
    by (simp_all add: ex_defs)
  have m: "MaxCodeSize ?x < length (Output \<lparr>Output = replicate 24577 (0 :: 8 word),
             GasLeft = 1000, GasRefund = 0\<rparr>)"
    by (simp add: ex_ext_def)
  have a: "accounts ex_state 0xC4 = None" "storage ex_state 0xC4 0 = 0"
    by (simp_all add: ex_state_def)
  have th: "HostImpl_Call ?x ex_host Create 0 0xB2 0 [0x00] 100000 0 False 0 0 ex_state =
           (\<lparr>output_r = replicate 24577 0, gasLeft = 1000, gasRefund = 0,
             createAddr = 0, err = Some ErrMaxCodeSizeExceeded\<rparr>,
            ibs_RevertToSnapshot (create_prepared ex_host 0xC4 0xB2 ex_state)
              (ibs_SetState 0xC4 0 1 (create_entered ex_host 0xC4 0xB2 0 ex_state)))
       \<and> accounts (ibs_RevertToSnapshot (create_prepared ex_host 0xC4 0xB2 ex_state)
              (ibs_SetState 0xC4 0 1 (create_entered ex_host 0xC4 0xB2 0 ex_state))) =
            (accounts ex_state)(0xB2 \<mapsto> (getOrNew 0xB2 ex_state)\<lparr>Nonce := ibs_GetNonce 0xB2 ex_state + 1\<rparr>)
       \<and> storage (ibs_RevertToSnapshot (create_prepared ex_host 0xC4 0xB2 ex_state)
              (ibs_SetState 0xC4 0 1 (create_entered ex_host 0xC4 0xB2 0 ex_state))) = storage ex_state"
    using Call_max_code_size [OF _ _ _ r p e sd m au, of 0] by simp
  show ?thesis
    using th p m a n1
    by (simp add: ibs_GetNonce_def getOrNew_def)
qed

subsection \<open>The access list across a creation\<close>

lemma grows_refl: "grows s s"
  by (simp add: grows_def)

lemma grows_trans: "grows s t \<Longrightarrow> grows t u \<Longrightarrow> grows s u"
  by (auto simp: grows_def)

lemma grows_ops:
  "grows s (ibs_SetCode a c s)"
  "grows s (ibs_SetNonce a n s)"
  "grows s (ibs_CreateAccount a b s)"
  "grows s (ibs_RevertToSnapshot snapshot s)"
  "grows s (snd (ibs_Snapshot s))"
  by (simp_all add: grows_def ibs_SetCode_def ibs_SetNonce_def ibs_CreateAccount_def
      ibs_RevertToSnapshot_def ibs_Snapshot_def)

lemma create_deploy_state:
  "\<exists>b c. snd (create_deploy x h r snapshot ((res, e0), s7)) =
     (if b then ibs_RevertToSnapshot snapshot
                 (if c then ibs_SetCode r (Output res) s7 else s7)
      else (if c then ibs_SetCode r (Output res) s7 else s7))"
proof -
  obtain gl s8 e3 where t: "(gl, s8, e3) =
      (let ret = Output res;
           gasLeft1 = GasLeft res;
           e1 = (if e0 = None \<and> IsSpuriousDragon (ChainRules (evm h))
                     \<and> MaxCodeSize x < length ret
                   \<and> (\<not> IsAura (ChainRules (evm h))
                        \<or> HasEip3860 x (config h) (ChainRules (evm h)))
                then Some ErrMaxCodeSizeExceeded else e0);
           e2 = (if e1 = None \<and> IsLondon (ChainRules (evm h))
                     \<and> 1 \<le> length ret \<and> ret ! 0 = 0xEF
                then Some ErrInvalidCode else e1);
           createDataGas = (of_nat (length ret) :: uint64) * CreateDataGas x
       in (if e2 = None then
                (if sint createDataGas \<le> sint gasLeft1
                 then (gasLeft1 - createDataGas, ibs_SetCode r ret s7, e2)
                 else if IsHomestead (ChainRules (evm h))
                 then (gasLeft1, s7, Some ErrCodeStoreOutOfGas)
                 else (gasLeft1, s7, e2))
              else (gasLeft1, s7, e2)))"
    by (metis prod_cases3)
  have s8: "s8 = ibs_SetCode r (Output res) s7 \<or> s8 = s7"
    using t unfolding Let_def by (auto split: if_splits)
  have s9: "snd (create_deploy x h r snapshot ((res, e0), s7)) =
      (if e3 \<noteq> None \<and> (IsHomestead (ChainRules (evm h)) \<or> e3 \<noteq> Some ErrCodeStoreOutOfGas)
       then ibs_RevertToSnapshot snapshot s8 else s8)"
    unfolding create_deploy_def using t [symmetric]
    by (simp add: Let_def split del: if_split cong del: if_weak_cong)
  from s8 show ?thesis
  proof
    assume "s8 = ibs_SetCode r (Output res) s7"
    then show ?thesis unfolding s9
      by (intro exI [of _ "e3 \<noteq> None \<and> (IsHomestead (ChainRules (evm h))
            \<or> e3 \<noteq> Some ErrCodeStoreOutOfGas)"] exI [of _ True]) simp
  next
    assume "s8 = s7"
    then show ?thesis unfolding s9
      by (intro exI [of _ "e3 \<noteq> None \<and> (IsHomestead (ChainRules (evm h))
            \<or> e3 \<noteq> Some ErrCodeStoreOutOfGas)"] exI [of _ False]) simp
  qed
qed

lemma create_deploy_grows:
  "grows s7 (snd (create_deploy x h r snapshot ((res, e0), s7)))"
proof -
  obtain b c where "snd (create_deploy x h r snapshot ((res, e0), s7)) =
     (if b then ibs_RevertToSnapshot snapshot
                 (if c then ibs_SetCode r (Output res) s7 else s7)
      else (if c then ibs_SetCode r (Output res) s7 else s7))"
    using create_deploy_state by blast
  then show ?thesis
    by (cases b; cases c) (auto intro: grows_ops grows_refl grows_trans)
qed

lemma create_entered_reached:
  assumes "IsBerlin (ChainRules (evm h))"
      and "\<forall>db. grows db (Transfer (Context (evm h)) db sender r val False)"
  shows "prefix (trace s @ [OpSetNonce sender (ibs_GetNonce sender s + 1),
                            OpAddAddressToAccessList r, OpSnapshot])
           (trace (create_entered h r sender val s))
       \<and> r \<in> accessList (create_entered h r sender val s)"
proof -
  let ?s3 = "snd (ibs_Snapshot (create_prepared h r sender s))"
  let ?s5 = "if IsSpuriousDragon (ChainRules (evm h))
             then ibs_SetNonce r 1 (ibs_CreateAccount r True ?s3)
             else ibs_CreateAccount r True ?s3"
  have 3: "trace ?s3 = trace s @ [OpSetNonce sender (ibs_GetNonce sender s + 1),
                            OpAddAddressToAccessList r, OpSnapshot]"
    "r \<in> accessList ?s3"
    using assms(1) by (simp_all add: ibs_Snapshot_def create_prepared_fields)
  have "grows ?s3 ?s5"
    by (auto intro: grows_ops grows_trans)
  moreover have "grows ?s5 (create_entered h r sender val s)"
    using assms(2) by (simp add: create_entered_def Let_def)
  ultimately have "grows ?s3 (create_entered h r sender val s)"
    by (rule grows_trans)
  then show ?thesis
    unfolding grows_def 3(1) using 3(2) by auto
qed

text \<open>
  C7. Take a creation under rules with Berlin active that gets past its prechecks, so that
  a snapshot is taken, and let the transfer and the interpreter reach the backend through
  its operations only. Then the operations \<open>Call\<close> performs begin with the increment of the
  sender's nonce, the addition of the derived recipient to the access list, and only then
  the snapshot; and whatever the outcome, in particular when the creation fails and the
  state is reverted to that snapshot, the recipient is in the access list of the state
  returned. The checkpoint the snapshot holds has the recipient in its access list
  already, and reverting to a snapshot leaves the access list as it is.
\<close>

theorem Call_create_access_list:
  assumes "kind \<noteq> Call" "kind \<noteq> DelegateCall" "kind \<noteq> CallCode"
      and "IsBerlin (ChainRules (evm h))"
      and "r = create_recipient x kind recipient0 sender salt input0 s"
      and "create_prechecks_pass x h r sender val s"
      and "\<forall>db. grows db (Transfer (Context (evm h)) db sender r val False)"
      and "\<forall>db. grows db (snd (Execute x kind static depth gas r sender
                   (create_input kind input0) val (create_code kind input0) db))"
  shows "prefix (trace s @ [OpSetNonce sender (ibs_GetNonce sender s + 1),
                            OpAddAddressToAccessList r, OpSnapshot])
           (trace (snd (HostImpl_Call x h kind recipient0 sender val input0 gas depth static
                          salt codeAddress s)))
       \<and> r \<in> accessList (snd (HostImpl_Call x h kind recipient0 sender val input0 gas depth
                                 static salt codeAddress s))
       \<and> r \<in> accessList (fst (ibs_Snapshot (create_prepared h r sender s)))
       \<and> accessList (ibs_RevertToSnapshot snapshot t) = accessList t"
proof -
  let ?s6 = "create_entered h r sender val s"
  let ?run = "Execute x kind static depth gas r sender (create_input kind input0) val
                (create_code kind input0) ?s6"
  obtain res e0 s7 where run: "?run = ((res, e0), s7)"
    by (metis surj_pair)
  have call: "HostImpl_Call x h kind recipient0 sender val input0 gas depth static salt
                codeAddress s =
              create_deploy x h r (create_prepared h r sender s) ((res, e0), s7)"
    using Call_creation_passed [OF assms(1-3) assms(5,6)] run by simp
  have "grows ?s6 (snd ?run)" using assms(8) by blast
  then have "grows ?s6 s7" by (simp add: run)
  then have g: "grows ?s6 (snd (HostImpl_Call x h kind recipient0 sender val input0 gas depth
                                  static salt codeAddress s))"
    unfolding call using create_deploy_grows by (rule grows_trans)
  have p1: "prefix (trace s @ [OpSetNonce sender (ibs_GetNonce sender s + 1),
                              OpAddAddressToAccessList r, OpSnapshot]) (trace ?s6)"
    and m: "r \<in> accessList ?s6"
    using create_entered_reached [OF assms(4,7), of s] by simp_all
  have p2: "prefix (trace ?s6)
              (trace (snd (HostImpl_Call x h kind recipient0 sender val input0 gas depth static
                             salt codeAddress s)))"
    and sub: "accessList ?s6 \<subseteq>
                accessList (snd (HostImpl_Call x h kind recipient0 sender val input0 gas depth
                                   static salt codeAddress s))"
    using g by (simp_all add: grows_def)
  from p1 p2 have "prefix (trace s @ [OpSetNonce sender (ibs_GetNonce sender s + 1),
                              OpAddAddressToAccessList r, OpSnapshot])
              (trace (snd (HostImpl_Call x h kind recipient0 sender val input0 gas depth static
                             salt codeAddress s)))"
    by (rule prefix_order.trans)
  moreover from m sub
  have "r \<in> accessList (snd (HostImpl_Call x h kind recipient0 sender val input0 gas depth
                               static salt codeAddress s))"
    by blast
  moreover have "r \<in> accessList (fst (ibs_Snapshot (create_prepared h r sender s)))"
    using assms(4) by (simp add: ibs_Snapshot_def create_prepared_fields)
  ultimately show ?thesis by (simp add: RevertToSnapshot_fields)
qed

lemma ex_prechecks_pass:
  "create_prechecks_pass (ex_ext out gl e) ex_host 0xC4 0xB2 0 ex_state"
proof -
  have n1: "ibs_GetNonce 0xB2 ex_state = 1" "ibs_GetNonce 0xC4 ex_state = 0"
    "accounts ex_state 0xC4 = None"
    by (simp_all add: ex_state_def ibs_GetNonce_def)
  show ?thesis
    by (simp add: create_prechecks_pass_def create_collides_def GetNonce_create_prepared
        ibs_GetCodeHash_def create_prepared_fields n1 ex_defs word_less_nat_alt)
qed

lemma ex_recipient:
  "create_recipient (ex_ext out gl e) Create 0 0xB2 0 [0x00] ex_state = 0xC4"
  by (simp add: create_recipient_def ex_ext_def ex_state_def ibs_GetNonce_def)

lemma ex_grows:
  "grows db (Transfer (Context (evm ex_host)) db a b v bail)"
  "grows db (snd (Execute (ex_ext out gl e) kind static depth gas r a inp v code db))"
  by (simp_all add: grows_def ex_defs ibs_AddBalance_def ibs_SubBalance_def ibs_SetState_def)

text \<open>A \<open>Create\<close> of value 0 by \<open>0xB2\<close>, targeting \<open>0xC4\<close>, whose interpreter run ends in a
  fault: the creation fails, the new account is gone after the revert, and \<open>0xC4\<close>, not in
  the access list before, is in it afterwards.\<close>

theorem Call_create_access_list_witness:
  "IsBerlin (ChainRules (evm ex_host))
   \<and> create_prechecks_pass (ex_ext [] 0 (Some (ErrFault ''invalid opcode''))) ex_host 0xC4 0xB2 0
        ex_state
   \<and> 0xC4 \<notin> accessList ex_state
   \<and> err (fst (HostImpl_Call (ex_ext [] 0 (Some (ErrFault ''invalid opcode''))) ex_host Create 0
                  0xB2 0 [0x00] 100000 0 False 0 0 ex_state)) = Some (ErrFault ''invalid opcode'')
   \<and> accounts (snd (HostImpl_Call (ex_ext [] 0 (Some (ErrFault ''invalid opcode''))) ex_host
                       Create 0 0xB2 0 [0x00] 100000 0 False 0 0 ex_state)) 0xC4 = None
   \<and> 0xC4 \<in> accessList (snd (HostImpl_Call (ex_ext [] 0 (Some (ErrFault ''invalid opcode'')))
                                   ex_host Create 0 0xB2 0 [0x00] 100000 0 False 0 0 ex_state))
   \<and> prefix [OpSetNonce 0xB2 2, OpAddAddressToAccessList 0xC4, OpSnapshot]
        (trace (snd (HostImpl_Call (ex_ext [] 0 (Some (ErrFault ''invalid opcode''))) ex_host
                       Create 0 0xB2 0 [0x00] 100000 0 False 0 0 ex_state)))"
proof -
  let ?x = "ex_ext [] 0 (Some (ErrFault ''invalid opcode''))"
  have b: "IsBerlin (ChainRules (evm ex_host))" by (simp add: ex_defs)
  have r: "0xC4 = create_recipient ?x Create 0 0xB2 0 [0x00] ex_state"
    by (simp add: ex_recipient)
  have p: "create_prechecks_pass ?x ex_host 0xC4 0xB2 0 ex_state"
    by (rule ex_prechecks_pass)
  have g1: "\<forall>db. grows db (Transfer (Context (evm ex_host)) db 0xB2 0xC4 0 False)"
    by (simp add: ex_grows)
  have g2: "\<forall>db. grows db (snd (Execute ?x Create False 0 100000 0xC4 0xB2
              (create_input Create [0x00]) 0 (create_code Create [0x00]) db))"
    by (simp add: ex_grows)
  have a: "0xC4 \<notin> accessList ex_state" "accounts ex_state 0xC4 = None" "trace ex_state = []"
    "ibs_GetNonce 0xB2 ex_state = 1"
    by (simp_all add: ex_state_def ibs_GetNonce_def)
  have ev: "HostImpl_Call ?x ex_host Create 0 0xB2 0 [0x00] 100000 0 False 0 0 ex_state =
      (\<lparr>output_r = [], gasLeft = 0, gasRefund = 0, createAddr = 0,
        err = Some (ErrFault ''invalid opcode'')\<rparr>,
       ibs_RevertToSnapshot (create_prepared ex_host 0xC4 0xB2 ex_state)
         (ibs_SetState 0xC4 0 1 (create_entered ex_host 0xC4 0xB2 0 ex_state)))"
    using Call_creation_passed [OF _ _ _ r p, where gas = 100000 and depth = 0 and static = False and codeAddress = 0]
    by (simp add: create_deploy_def Let_def ex_ext_def ex_Execute_def)
  have acc: "accounts (snd (HostImpl_Call ?x ex_host Create 0 0xB2 0 [0x00] 100000 0 False 0 0
                ex_state)) 0xC4 = None"
    by (simp add: ev RevertToSnapshot_fields create_prepared_fields a)
  have er: "err (fst (HostImpl_Call ?x ex_host Create 0 0xB2 0 [0x00] 100000 0 False 0 0
                ex_state)) = Some (ErrFault ''invalid opcode'')"
    by (simp add: ev)
  have th: "prefix [OpSetNonce 0xB2 2, OpAddAddressToAccessList 0xC4, OpSnapshot]
        (trace (snd (HostImpl_Call ?x ex_host Create 0 0xB2 0 [0x00] 100000 0 False 0 0
                       ex_state)))
      \<and> 0xC4 \<in> accessList (snd (HostImpl_Call ?x ex_host Create 0 0xB2 0 [0x00] 100000 0
                                    False 0 0 ex_state))"
    using Call_create_access_list [OF _ _ _ b r p g1 g2, where codeAddress = 0] a by simp
  show ?thesis
    using th b p a acc er by simp
qed

subsection \<open>The address a creation returns\<close>

lemma create_deploy_createAddr:
  "createAddr (fst (create_deploy x h r snapshot run)) = 0"
  by (simp add: create_deploy_def Let_def split_beta split del: if_split)

text \<open>
  C3 is not what the code does. The named result \<open>createAddr\<close> of \<open>Call\<close> is never assigned:
  for every kind other than the three message-call kinds, whatever the outcome, the
  address returned is the zero address, not the derived recipient.
\<close>

theorem Call_creation_createAddr:
  assumes "kind \<noteq> Call" "kind \<noteq> DelegateCall" "kind \<noteq> CallCode"
  shows "createAddr (fst (HostImpl_Call x h kind recipient0 sender val input0 gas depth static
                            salt codeAddress s)) = 0"
  by (simp add: Call_creation_unfold [OF assms] create_deploy_createAddr)

text \<open>A successful \<open>Create\<close> by \<open>0xB2\<close>: the contract is deployed at \<open>0xC4\<close> with the code the
  interpreter returned, \<open>Call\<close> returns no error, and the address it returns is 0.\<close>

theorem Call_creation_createAddr_witness:
  "create_recipient (ex_ext [0x60] 50000 None) Create 0 0xB2 0 [0x00] ex_state = 0xC4
   \<and> err (fst (HostImpl_Call (ex_ext [0x60] 50000 None) ex_host Create 0 0xB2 0 [0x00] 100000 0
                  False 0 0 ex_state)) = None
   \<and> ibs_GetCode 0xC4 (snd (HostImpl_Call (ex_ext [0x60] 50000 None) ex_host Create 0 0xB2 0
                               [0x00] 100000 0 False 0 0 ex_state)) = [0x60]
   \<and> createAddr (fst (HostImpl_Call (ex_ext [0x60] 50000 None) ex_host Create 0 0xB2 0 [0x00]
                         100000 0 False 0 0 ex_state)) = 0
   \<and> createAddr (fst (HostImpl_Call (ex_ext [0x60] 50000 None) ex_host Create 0 0xB2 0 [0x00]
                         100000 0 False 0 0 ex_state)) \<noteq> 0xC4"
proof -
  let ?x = "ex_ext [0x60] 50000 None"
  have r: "0xC4 = create_recipient ?x Create 0 0xB2 0 [0x00] ex_state"
    by (simp add: ex_recipient)
  have p: "create_prechecks_pass ?x ex_host 0xC4 0xB2 0 ex_state"
    by (rule ex_prechecks_pass)
  have ev: "HostImpl_Call ?x ex_host Create 0 0xB2 0 [0x00] 100000 0 False 0 0 ex_state =
      (\<lparr>output_r = [0x60], gasLeft = 49800, gasRefund = 0, createAddr = 0, err = None\<rparr>,
       ibs_SetCode 0xC4 [0x60]
         (ibs_SetState 0xC4 0 1 (create_entered ex_host 0xC4 0xB2 0 ex_state)))"
    using Call_creation_passed [OF _ _ _ r p, where gas = 100000 and depth = 0 and static = False and codeAddress = 0]
    by (simp add: create_deploy_def Let_def ex_defs)
  have z: "createAddr (fst (HostImpl_Call ?x ex_host Create 0 0xB2 0 [0x00] 100000 0 False 0 0
                               ex_state)) = 0"
    by (rule Call_creation_createAddr) simp_all
  show ?thesis
    using z by (simp add: ev ex_recipient ibs_GetCode_def ibs_SetCode_def)
qed

subsection \<open>handleCalls\<close>

text \<open>\<open>handleCalls\<close> past its balance precheck and its early return: the state after the
  snapshot, the account creation and the transfer, in which the code is run.\<close>

lemma handleCalls_unfold:
  "HostImpl_handleCalls x h kind recipient sender val input gas depth static salt codeAddress s =
     (if \<not> call_precheck_passes h kind sender val s
      then (\<lparr>output_r = [], gasLeft = gas, gasRefund = 0, createAddr = 0,
              err = Some ErrInsufficientBalance\<rparr>, s)
      else if kind = Call \<and> \<not> ibs_Exist recipient (snd (ibs_Snapshot s))
                \<and> Precompile (evm h) codeAddress = None
                \<and> IsSpuriousDragon (ChainRules (evm h)) \<and> val = 0
      then (\<lparr>output_r = [], gasLeft = gas, gasRefund = 0, createAddr = 0, err = None\<rparr>,
            snd (ibs_Snapshot s))
      else
        (case Precompile (evm h) codeAddress of
           Some pc \<Rightarrow>
             (\<lparr>output_r = fst (RunPrecompiledContract x pc input gas),
               gasLeft = fst (snd (RunPrecompiledContract x pc input gas)),
               gasRefund = 0, createAddr = 0,
               err = snd (snd (RunPrecompiledContract x pc input gas))\<rparr>,
              if snd (snd (RunPrecompiledContract x pc input gas)) \<noteq> None
                   \<or> RestoreState (config h)
              then ibs_RevertToSnapshot s (call_entered h kind recipient sender val s)
              else call_entered h kind recipient sender val s)
         | None \<Rightarrow>
             if ibs_GetCode codeAddress s = []
             then (\<lparr>output_r = [], gasLeft = gas, gasRefund = 0, createAddr = 0, err = None\<rparr>,
                   if RestoreState (config h)
                   then ibs_RevertToSnapshot s (call_entered h kind recipient sender val s)
                   else call_entered h kind recipient sender val s)
             else
               (\<lparr>output_r = Output (fst (fst (Execute x Call static depth gas recipient sender
                              input val (ibs_GetCode codeAddress s)
                              (call_entered h kind recipient sender val s)))),
                 gasLeft = GasLeft (fst (fst (Execute x Call static depth gas recipient sender
                              input val (ibs_GetCode codeAddress s)
                              (call_entered h kind recipient sender val s)))),
                 gasRefund = GasRefund (fst (fst (Execute x Call static depth gas recipient
                              sender input val (ibs_GetCode codeAddress s)
                              (call_entered h kind recipient sender val s)))),
                 createAddr = 0,
                 err = snd (fst (Execute x Call static depth gas recipient sender
                              input val (ibs_GetCode codeAddress s)
                              (call_entered h kind recipient sender val s)))\<rparr>,
                if snd (fst (Execute x Call static depth gas recipient sender
                              input val (ibs_GetCode codeAddress s)
                              (call_entered h kind recipient sender val s))) \<noteq> None
                     \<or> RestoreState (config h)
                then ibs_RevertToSnapshot s
                       (snd (Execute x Call static depth gas recipient sender
                              input val (ibs_GetCode codeAddress s)
                              (call_entered h kind recipient sender val s)))
                else snd (Execute x Call static depth gas recipient sender
                              input val (ibs_GetCode codeAddress s)
                              (call_entered h kind recipient sender val s)))))"
proof (cases "Precompile (evm h) codeAddress")
  case (Some pc)
  then show ?thesis
    unfolding HostImpl_handleCalls_def call_precheck_passes_def call_entered_def ibs_Snapshot_def
    by (simp add: Let_def split_beta split del: if_split cong del: if_weak_cong)
next
  case None
  show ?thesis
  proof (cases "ibs_GetCode codeAddress s = []")
    case True
    with None show ?thesis
      unfolding HostImpl_handleCalls_def call_precheck_passes_def call_entered_def
        ibs_Snapshot_def
      by (simp add: Let_def split_beta split del: if_split cong del: if_weak_cong)
  next
    case False
    with None show ?thesis
      unfolding HostImpl_handleCalls_def call_precheck_passes_def call_entered_def
        ibs_Snapshot_def
      by (simp add: Let_def split_beta split del: if_split cong del: if_weak_cong)
  qed
qed

lemma Snapshot_reads:
  "ibs_Exist a (snd (ibs_Snapshot s)) = ibs_Exist a s"
  "ibs_Exist a (s\<lparr>trace := tr\<rparr>) = ibs_Exist a s"
  "snd (ibs_Snapshot s) = s\<lparr>trace := trace s @ [OpSnapshot]\<rparr>"
  by (simp_all add: ibs_Snapshot_def ibs_Exist_def)

text \<open>
  C2 is not what the code does. When a precompile returns an error, \<open>handleCalls\<close> reverts
  to the snapshot, but the gas it returns is the remaining gas the precompile reported,
  not 0: the assignment \<open>gas = 0\<close> of the source writes the parameter \<open>gas\<close>, while the
  result is \<open>gasLeft\<close>.
\<close>

theorem handleCalls_fault_gas:
  assumes "call_precheck_passes h kind sender val s"
      and "Precompile (evm h) codeAddress = Some pc"
      and "RunPrecompiledContract x pc input gas = (out, gLeft, Some e)"
  shows "HostImpl_handleCalls x h kind recipient sender val input gas depth static salt
           codeAddress s =
         (\<lparr>output_r = out, gasLeft = gLeft, gasRefund = 0, createAddr = 0, err = Some e\<rparr>,
          ibs_RevertToSnapshot s (call_entered h kind recipient sender val s))"
  using assms by (simp add: handleCalls_unfold)

text \<open>The same for the interpreter: the gas returned with its error is the gas it
  reported.\<close>

lemma handleCalls_fault_gas_interpreter:
  assumes "call_precheck_passes h kind sender val s"
      and "Precompile (evm h) codeAddress = None"
      and "ibs_GetCode codeAddress s \<noteq> []"
      and "kind \<noteq> Call \<or> ibs_Exist recipient s"
      and "Execute x Call static depth gas recipient sender input val
             (ibs_GetCode codeAddress s) (call_entered h kind recipient sender val s) =
           ((res, Some e), s')"
  shows "HostImpl_handleCalls x h kind recipient sender val input gas depth static salt
           codeAddress s =
         (\<lparr>output_r = Output res, gasLeft = GasLeft res, gasRefund = GasRefund res,
           createAddr = 0, err = Some e\<rparr>,
          ibs_RevertToSnapshot s s')"
  using assms by (auto simp add: handleCalls_unfold Snapshot_reads(1))

text \<open>A \<open>Call\<close> of value 0 by \<open>0xA1\<close> with 100000 gas to the pairing precompile at address 8,
  on an input of one byte: the precompile charges 45000 and rejects the input. The error
  is not \<open>ErrExecutionReverted\<close>, and the gas returned is 55000.\<close>

theorem handleCalls_fault_gas_witness:
  "call_precheck_passes ex_host Call 0xA1 0 ex_state
   \<and> RunPrecompiledContract (ex_ext [] 0 None) ex_pairing [0x01] 100000 =
       ([], 55000, Some (ErrFault ''bad elliptic curve pairing size''))
   \<and> fst (HostImpl_handleCalls (ex_ext [] 0 None) ex_host Call 8 0xA1 0 [0x01] 100000 0 False 0 8
             ex_state) =
       \<lparr>output_r = [], gasLeft = 55000, gasRefund = 0, createAddr = 0,
         err = Some (ErrFault ''bad elliptic curve pairing size'')\<rparr>
   \<and> gasLeft (fst (HostImpl_handleCalls (ex_ext [] 0 None) ex_host Call 8 0xA1 0 [0x01] 100000
                      0 False 0 8 ex_state)) \<noteq> 0
   \<and> accounts (snd (HostImpl_handleCalls (ex_ext [] 0 None) ex_host Call 8 0xA1 0 [0x01] 100000
                       0 False 0 8 ex_state)) = accounts ex_state"
proof -
  have c: "call_precheck_passes ex_host Call 0xA1 0 ex_state"
    by (simp add: call_precheck_passes_def)
  have p: "Precompile (evm ex_host) 8 = Some ex_pairing"
    by (simp add: ex_defs)
  have g: "(45000 :: uint64) \<le> 100000" "(100000 :: uint64) - 45000 = 55000"
    by simp_all
  have r: "RunPrecompiledContract (ex_ext [] 0 None) ex_pairing [0x01] 100000 =
             ([], 55000, Some (ErrFault ''bad elliptic curve pairing size''))"
    using g by (simp add: ex_ext_def ex_RunPrecompiledContract_def ex_pairing_def Let_def)
  show ?thesis
    using handleCalls_fault_gas [OF c p r, where recipient = 8 and depth = 0
        and static = False and salt = 0] c r
    by (simp add: RevertToSnapshot_fields)
qed

text \<open>
  C8, as amended. Let a call get past the balance precheck (the kind is \<open>DelegateCall\<close>,
  or the value is zero, or the sender can transfer it, or bailout is set), and let the code
  address be no precompile. If the kind is \<open>Call\<close>, the recipient does not exist, the
  value is zero and Spurious Dragon is active, or else if the code at the code address is
  empty, then \<open>handleCalls\<close> returns no error, an empty output and the gas it was given. In
  the first case no account is created: the state returned is the one given, with the
  snapshot recorded.
\<close>

theorem handleCalls_trivial:
  assumes "call_precheck_passes h kind sender val s"
      and "Precompile (evm h) codeAddress = None"
      and "(kind = Call \<and> \<not> ibs_Exist recipient s \<and> val = 0
              \<and> IsSpuriousDragon (ChainRules (evm h)))
           \<or> ibs_GetCode codeAddress s = []"
  shows "fst (HostImpl_handleCalls x h kind recipient sender val input gas depth static salt
                codeAddress s) =
           \<lparr>output_r = [], gasLeft = gas, gasRefund = 0, createAddr = 0, err = None\<rparr>
       \<and> (kind = Call \<and> \<not> ibs_Exist recipient s \<and> val = 0
              \<and> IsSpuriousDragon (ChainRules (evm h)) \<longrightarrow>
            snd (HostImpl_handleCalls x h kind recipient sender val input gas depth static salt
                   codeAddress s) = s\<lparr>trace := trace s @ [OpSnapshot]\<rparr>)"
proof (cases "kind = Call \<and> \<not> ibs_Exist recipient s \<and> val = 0
              \<and> IsSpuriousDragon (ChainRules (evm h))")
  case True
  with assms(1,2) show ?thesis
    by (simp add: handleCalls_unfold Snapshot_reads)
next
  case False
  with assms(3) have "ibs_GetCode codeAddress s = []" by blast
  with False assms(1,2) show ?thesis
    by (auto simp add: handleCalls_unfold Snapshot_reads(1))
qed

text \<open>A \<open>Call\<close> of value 0 by \<open>0xA1\<close> to the address \<open>0xC4\<close>, which has no account: success,
  gas unchanged, and \<open>0xC4\<close> still has no account. And a \<open>Call\<close> of value 5 by \<open>0xB2\<close> to
  \<open>0xA1\<close>, which has no code: success, gas unchanged.\<close>

theorem handleCalls_trivial_witness:
  "call_precheck_passes ex_host Call 0xA1 0 ex_state
   \<and> Precompile (evm ex_host) 0xC4 = None
   \<and> \<not> ibs_Exist 0xC4 ex_state
   \<and> IsSpuriousDragon (ChainRules (evm ex_host))
   \<and> HostImpl_handleCalls (ex_ext [] 0 None) ex_host Call 0xC4 0xA1 0 [] 100000 0 False 0 0xC4
        ex_state =
      (\<lparr>output_r = [], gasLeft = 100000, gasRefund = 0, createAddr = 0, err = None\<rparr>,
       ex_state\<lparr>trace := [OpSnapshot]\<rparr>)
   \<and> \<not> ibs_Exist 0xC4 (snd (HostImpl_handleCalls (ex_ext [] 0 None) ex_host Call 0xC4 0xA1 0 []
                                100000 0 False 0 0xC4 ex_state))
   \<and> call_precheck_passes ex_host Call 0xB2 5 ex_state
   \<and> Precompile (evm ex_host) 0xA1 = None
   \<and> ibs_GetCode 0xA1 ex_state = []
   \<and> fst (HostImpl_handleCalls (ex_ext [] 0 None) ex_host Call 0xA1 0xB2 5 [] 100000 0 False 0
             0xA1 ex_state) =
      \<lparr>output_r = [], gasLeft = 100000, gasRefund = 0, createAddr = 0, err = None\<rparr>"
proof -
  have c1: "call_precheck_passes ex_host Call 0xA1 0 ex_state"
    by (simp add: call_precheck_passes_def)
  have p1: "Precompile (evm ex_host) 0xC4 = None" and p2: "Precompile (evm ex_host) 0xA1 = None"
    by (simp_all add: ex_defs)
  have n: "\<not> ibs_Exist 0xC4 ex_state" and t: "trace ex_state = []"
    by (simp_all add: ex_state_def ibs_Exist_def)
  have sd: "IsSpuriousDragon (ChainRules (evm ex_host))"
    by (simp add: ex_defs)
  have a1: "(Call = Call \<and> \<not> ibs_Exist 0xC4 ex_state \<and> (0 :: uint256) = 0
              \<and> IsSpuriousDragon (ChainRules (evm ex_host)))
            \<or> ibs_GetCode 0xC4 ex_state = []"
    using n sd by simp
  have c2: "call_precheck_passes ex_host Call 0xB2 5 ex_state"
    by (simp add: call_precheck_passes_def ex_defs ex_state_def ibs_GetBalance_def)
  have e: "ibs_GetCode 0xA1 ex_state = []"
    by (simp add: ex_state_def ibs_GetCode_def)
  have a2: "(Call = Call \<and> \<not> ibs_Exist 0xA1 ex_state \<and> (5 :: uint256) = 0
              \<and> IsSpuriousDragon (ChainRules (evm ex_host)))
            \<or> ibs_GetCode 0xA1 ex_state = []"
    using e by simp
  have 1: "HostImpl_handleCalls (ex_ext [] 0 None) ex_host Call 0xC4 0xA1 0 [] 100000 0 False 0
             0xC4 ex_state =
      (\<lparr>output_r = [], gasLeft = 100000, gasRefund = 0, createAddr = 0, err = None\<rparr>,
       ex_state\<lparr>trace := [OpSnapshot]\<rparr>)"
    using handleCalls_trivial [OF c1 p1 a1, where x = "ex_ext [] 0 None" and input = "[]"
        and gas = 100000 and depth = 0 and static = False and salt = 0] n sd t
    by (simp add: prod_eq_iff)
  have 2: "\<not> ibs_Exist 0xC4 (snd (HostImpl_handleCalls (ex_ext [] 0 None) ex_host Call 0xC4 0xA1
                                      0 [] 100000 0 False 0 0xC4 ex_state))"
    using n by (simp add: 1 ibs_Exist_def)
  show ?thesis
    using handleCalls_trivial [OF c2 p2 a2, where x = "ex_ext [] 0 None" and input = "[]"
        and gas = 100000 and depth = 0 and static = False and salt = 0] c1 p1 n sd 1 2 c2 p2 e
    by simp
qed

text \<open>C8 as stated fails in its general part when the balance precheck does not pass: a
  \<open>Call\<close> of value 1000 by \<open>0xB2\<close>, whose balance is 5, to \<open>0xA1\<close>, which has no code and is
  no precompile, fails with \<open>ErrInsufficientBalance\<close>.\<close>

theorem handleCalls_trivial_counterexample:
  "Precompile (evm ex_host) 0xA1 = None
   \<and> ibs_GetCode 0xA1 ex_state = []
   \<and> err (fst (HostImpl_handleCalls (ex_ext [] 0 None) ex_host Call 0xA1 0xB2 1000 [] 100000 0
                  False 0 0xA1 ex_state)) = Some ErrInsufficientBalance
   \<and> err (fst (HostImpl_handleCalls (ex_ext [] 0 None) ex_host Call 0xA1 0xB2 1000 [] 100000 0
                  False 0 0xA1 ex_state)) \<noteq> None"
proof -
  have c: "\<not> call_precheck_passes ex_host Call 0xB2 1000 ex_state"
    by (simp add: call_precheck_passes_def ex_defs ex_state_def ibs_GetBalance_def)
  have p: "Precompile (evm ex_host) 0xA1 = None"
    by (simp add: ex_defs)
  have e: "ibs_GetCode 0xA1 ex_state = []"
    by (simp add: ex_state_def ibs_GetCode_def)
  show ?thesis using c p e by (simp add: handleCalls_unfold)
qed

end
